theory Spec2Isabelle
  imports Complex_Main
begin

section \<open>JavaScript values used by the routes\<close>

text \<open>
  Identifiers are the database keys of the relational store (uuid strings). A nullable
  column is an \<open>option\<close>; a stored identifier is never the empty string, so a
  column is falsy exactly when it is null. Values that arrive in a request body are
  plain strings, and there the empty string stands for a missing field.
\<close>

type_synonym ident = string

subsection \<open>Numbers: \<open>Math.round((c / t) * 100)\<close>\<close>

text \<open>
  Every percentage of the routes is \<open>Math.round((c / t) * 100)\<close> for two array
  lengths or set sizes \<open>c\<close> and \<open>t\<close>. JavaScript numbers are IEEE 754 binary64
  values: the quotient is rounded to 53 significant bits (nearest, ties to even), the
  product by 100 is rounded again, and \<open>Math.round\<close> takes the nearest integer with
  ties towards plus infinity. A non-negative finite binary64 value is the pair
  \<open>(m, e)\<close> standing for \<open>m * 2 ^ e\<close>. The operands here lie far inside the normal
  range, so neither overflow nor subnormal numbers are modelled.
\<close>

type_synonym double = "nat \<times> int"

fun bits :: "nat \<Rightarrow> nat" where
  "bits n = (if n = 0 then 0 else Suc (bits (n div 2)))"

declare bits.simps [simp del]

definition round53 :: "nat \<Rightarrow> nat \<Rightarrow> int \<Rightarrow> double" where
  \<comment> \<open>the binary64 value nearest to \<open>(a / b) * 2 ^ k\<close>, for \<open>0 < b\<close>\<close>
  "round53 a b k =
     (if a = 0 then (0, 0)
      else
        let e0 = int (bits a) - int (bits b);
            e = (if (if 0 \<le> e0 then b * 2 ^ nat e0 \<le> a else b \<le> a * 2 ^ nat (- e0))
                 then e0 else e0 - 1);
            num = a * 2 ^ nat (52 - e);
            den = b * 2 ^ nat (e - 52);
            q = num div den;
            r = num mod den;
            m = (if 2 * r < den then q
                 else if den < 2 * r then q + 1
                 else if even q then q else q + 1)
        in (m, e - 52 + k))"

definition val :: "double \<Rightarrow> real" where
  \<comment> \<open>the real number a binary64 value stands for\<close>
  "val x = real (fst x) * 2 powi (snd x)"

definition js_div :: "nat \<Rightarrow> nat \<Rightarrow> double" where
  "js_div c t = round53 c t 0"

definition js_times :: "double \<Rightarrow> nat \<Rightarrow> double" where
  "js_times x n = round53 (fst x * n) 1 (snd x)"

definition Math_round :: "double \<Rightarrow> nat" where
  "Math_round x =
     (if 0 \<le> snd x then fst x * 2 ^ nat (snd x)
      else (fst x + 2 ^ (nat (- snd x) - 1)) div 2 ^ nat (- snd x))"

definition js_percent :: "nat \<Rightarrow> nat \<Rightarrow> nat" where
  \<comment> \<open>\<open>Math.round((c / t) * 100)\<close>\<close>
  "js_percent c t = Math_round (js_times (js_div c t) 100)"

subsection \<open>Strings\<close>

definition toLowerCase :: "string \<Rightarrow> string" where
  \<comment> \<open>ASCII letters only; the subject types and names compared are ASCII\<close>
  "toLowerCase s =
     map (\<lambda>c. let n = (of_char c :: nat) in
                if 65 \<le> n \<and> n \<le> 90 then char_of (n + 32) else c) s"

fun startsWith :: "string \<Rightarrow> string \<Rightarrow> bool" where
  "startsWith s [] = True"
| "startsWith [] (p # ps) = False"
| "startsWith (c # cs) (p # ps) = (c = p \<and> startsWith cs ps)"

fun includes_str :: "string \<Rightarrow> string \<Rightarrow> bool" where
  \<comment> \<open>\<open>s.includes(p)\<close>\<close>
  "includes_str [] p = (p = [])"
| "includes_str (c # cs) p = (startsWith (c # cs) p \<or> includes_str cs p)"

fun join :: "string \<Rightarrow> string list \<Rightarrow> string" where
  "join sep [] = []"
| "join sep [x] = x"
| "join sep (x # y # ys) = x @ sep @ join sep (y # ys)"

definition or_null :: "string option \<Rightarrow> ident option" where
  \<comment> \<open>\<open>v || null\<close> for a request field: undefined, null and the empty string give null\<close>
  "or_null v = (case v of None \<Rightarrow> None | Some s \<Rightarrow> if s = [] then None else Some s)"

section \<open>The relational store\<close>

record submission_type =
  st_id :: ident
  st_name :: string

record submission =
  sub_student_id :: ident
  sub_subject_id :: ident
  sub_type_id :: ident
  sub_status :: string

record subject =
  subj_id :: ident
  subj_name :: "string option"
  subj_code :: "string option"
  subj_type :: "string option"
  subj_class_id :: "ident option"

record student =
  s_id :: ident
  s_roll_no :: nat
  s_name :: string
  s_attendance_percent :: "rat option"
  s_class_id :: "ident option"
  s_batch_id :: "ident option"
  s_defaulter :: bool

record class_row =
  cls_id :: ident
  cls_year :: nat
  cls_department_id :: "ident option"

record faculty_subject =
  fs_faculty_id :: ident
  fs_subject_id :: "ident option"
  fs_class_id :: "ident option"
  fs_batch_id :: "ident option"

record selection =
  sel_student_id :: ident
  mdm_id :: "ident option"
  oe_id :: "ident option"
  pe_id :: "ident option"
  mdm_faculty_id :: "ident option"
  oe_faculty_id :: "ident option"
  pe_faculty_id :: "ident option"
  selections_locked :: bool

record offered_subject =
  os_subject_id :: ident
  os_department_id :: "ident option"
  os_year :: nat
  os_semester :: nat
  os_faculty_ids :: "ident list option"
  os_is_active :: bool

record user_row =
  u_id :: ident
  u_name :: string

record store =
  students :: "student list"
  subjects :: "subject list"
  classes :: "class_row list"
  faculty_subjects :: "faculty_subject list"
  student_subject_selection :: "selection list"
  department_offered_subjects :: "offered_subject list"
  student_submissions :: "submission list"
  submission_types :: "submission_type list"
  users :: "user_row list"

text \<open>
  The query client. A filtered select is \<open>filter\<close> on the table, in table order;
  \<open>.order("roll_no")\<close> sorts the rows. \<open>.maybeSingle()\<close> gives the row, or null
  when no row matches, and reports an error when more than one row matches;
  \<open>.single()\<close> reports an error unless exactly one row matches.
\<close>

datatype query_error = Multiple_rows | No_rows

definition maybeSingle :: "'a list \<Rightarrow> query_error + 'a option" where
  "maybeSingle rows =
     (case rows of [] \<Rightarrow> Inr None | [r] \<Rightarrow> Inr (Some r) | _ \<Rightarrow> Inl Multiple_rows)"

definition single :: "'a list \<Rightarrow> query_error + 'a" where
  "single rows =
     (case rows of [] \<Rightarrow> Inl No_rows | [r] \<Rightarrow> Inr r | _ \<Rightarrow> Inl Multiple_rows)"

definition error_message :: "query_error \<Rightarrow> string" where
  \<comment> \<open>\<open>err.message\<close> of the query client\<close>
  "error_message e =
     (case e of
        Multiple_rows \<Rightarrow> ''JSON object requested, multiple (or no) rows returned''
      | No_rows \<Rightarrow> ''JSON object requested, multiple (or no) rows returned'')"

definition order_by_roll_no :: "student list \<Rightarrow> student list" where
  "order_by_roll_no rows = sort_key s_roll_no rows"

text \<open>
  A response is the HTTP status with the message of its JSON body
  (\<open>success: true, message\<close> or \<open>success: false, error\<close>).
\<close>

datatype response = Success nat string | Failure nat string

definition selection_of :: "store \<Rightarrow> ident \<Rightarrow> selection list" where
  \<comment> \<open>\<open>.from("student_subject_selection").select("*").eq("student_id", id)\<close>\<close>
  "selection_of db student_id =
     filter (\<lambda>r. sel_student_id r = student_id) (student_subject_selection db)"

section \<open>Class teacher: the student list with completion percentages\<close>

text \<open>
  \<open>router.get('/students')\<close> of the class-teacher routes. \<open>taType\<close> and \<open>cieType\<close>
  are the first submission types named TA and CIE; \<open>sub.submission_type_id ===
  taType?.id\<close> is false for every row when the type is missing.
\<close>

definition findType :: "submission_type list \<Rightarrow> string \<Rightarrow> submission_type option" where
  "findType submissionTypes nm = find (\<lambda>t. st_name t = nm) submissionTypes"

definition hasTypeId :: "submission_type option \<Rightarrow> submission \<Rightarrow> bool" where
  "hasTypeId ty sub = (Some (sub_type_id sub) = map_option st_id ty)"

definition completedRow :: "submission option \<Rightarrow> bool" where
  \<comment> \<open>\<open>row && row.status === 'completed'\<close>\<close>
  "completedRow row = (case row of None \<Rightarrow> False | Some r \<Rightarrow> sub_status r = ''completed'')"

definition isSubjectComplete ::
  "submission_type option \<Rightarrow> submission_type option \<Rightarrow> submission list \<Rightarrow> subject \<Rightarrow> bool" where
  "isSubjectComplete taType cieType studentSubmissions subject =
     (let subjectSubmissions =
            filter (\<lambda>sub. sub_subject_id sub = subj_id subject) studentSubmissions
      in if subj_type subject = Some ''practical''
         then completedRow (find (hasTypeId taType) subjectSubmissions)
         else completedRow (find (hasTypeId taType) subjectSubmissions) \<and>
              completedRow (find (hasTypeId cieType) subjectSubmissions))"

definition subjectComplete ::
  "submission_type list \<Rightarrow> submission list \<Rightarrow> student \<Rightarrow> subject \<Rightarrow> bool" where
  \<comment> \<open>the loop body for one student and one subject\<close>
  "subjectComplete submissionTypes submissions s subject =
     isSubjectComplete (findType submissionTypes ''TA'') (findType submissionTypes ''CIE'')
       (filter (\<lambda>sub. sub_student_id sub = s_id s) submissions) subject"

definition completedSubjects ::
  "submission_type list \<Rightarrow> submission list \<Rightarrow> subject list \<Rightarrow> student \<Rightarrow> nat" where
  "completedSubjects submissionTypes submissions subjs s =
     fold (\<lambda>subject n. if subjectComplete submissionTypes submissions s subject then n + 1 else n)
       subjs 0"

definition submission_percentage ::
  "submission_type list \<Rightarrow> submission list \<Rightarrow> subject list \<Rightarrow> student \<Rightarrow> nat" where
  "submission_percentage submissionTypes submissions subjs s =
     (let totalSubjects = length subjs
      in if totalSubjects = 0 then 0
         else js_percent (completedSubjects submissionTypes submissions subjs s) totalSubjects)"

definition class_students :: "store \<Rightarrow> ident \<Rightarrow> (student \<times> nat) list" where
  "class_students db classId =
     (let data = order_by_roll_no (filter (\<lambda>s. s_class_id s = Some classId) (students db));
          studentIds = map s_id data;
          subjs = filter (\<lambda>x. subj_class_id x = Some classId) (subjects db);
          submissions = filter (\<lambda>sub. sub_student_id sub \<in> set studentIds) (student_submissions db)
      in map (\<lambda>s. (s, submission_percentage (submission_types db) submissions subjs s)) data)"

text \<open>
  The specification's reading of a completed row: a submission row of this student for this
  subject whose type is the submission type called \<open>nm\<close> and whose status is
  completed.
\<close>

definition completed_row_exists ::
  "submission_type list \<Rightarrow> submission list \<Rightarrow> student \<Rightarrow> subject \<Rightarrow> string \<Rightarrow> bool" where
  "completed_row_exists submissionTypes submissions s subject nm =
     (\<exists>sub \<in> set submissions.
        sub_student_id sub = s_id s \<and> sub_subject_id sub = subj_id subject \<and>
        hasTypeId (findType submissionTypes nm) sub \<and> sub_status sub = ''completed'')"

definition submission_key :: "submission \<Rightarrow> ident \<times> ident \<times> ident" where
  "submission_key sub = (sub_student_id sub, sub_subject_id sub, sub_type_id sub)"

section \<open>Student dashboard: the submission percentage\<close>

text \<open>
  \<open>router.get("/dashboard")\<close> of the student routes. \<open>typeMap\<close> is a \<open>Map\<close> from
  type id to type name (a later row with the same id overwrites); \<open>submissionMap\<close> is
  the object that starts with the three slots pending and takes the status of every row
  whose type name is known and non-empty, a later row overwriting an earlier one.
\<close>

definition setType :: "submission_type \<Rightarrow> (ident \<rightharpoonup> string) \<Rightarrow> (ident \<rightharpoonup> string)" where
  \<comment> \<open>\<open>typeMap.set(type.id, type.name)\<close>\<close>
  "setType t m = m(st_id t \<mapsto> st_name t)"

definition typeMap :: "submission_type list \<Rightarrow> (ident \<rightharpoonup> string)" where
  "typeMap submissionTypes = fold setType submissionTypes Map.empty"

definition setStatus :: "(ident \<rightharpoonup> string) \<Rightarrow> submission \<Rightarrow> (string \<rightharpoonup> string) \<Rightarrow> (string \<rightharpoonup> string)" where
  "setStatus tm sub m =
     (case tm (sub_type_id sub) of
        None \<Rightarrow> m
      | Some typeName \<Rightarrow> if typeName = [] then m else m(typeName \<mapsto> sub_status sub))"

definition submissionMap :: "(ident \<rightharpoonup> string) \<Rightarrow> submission list \<Rightarrow> (string \<rightharpoonup> string)" where
  "submissionMap tm subjectSubmissions =
     fold (setStatus tm) subjectSubmissions
       [''CIE'' \<mapsto> ''pending'', ''TA'' \<mapsto> ''pending'', ''Defaulter work'' \<mapsto> ''pending'']"

record dashboard_subject =
  ds_id :: ident
  ds_cie :: "string option"
  ds_ta :: "string option"
  ds_defaulter :: "string option"

definition subjectsWithSubmissions ::
  "submission_type list \<Rightarrow> submission list \<Rightarrow> subject list \<Rightarrow> dashboard_subject list" where
  "subjectsWithSubmissions submissionTypes submissions subjs =
     map (\<lambda>subject.
            let subjectSubmissions = filter (\<lambda>s. sub_subject_id s = subj_id subject) submissions;
                m = submissionMap (typeMap submissionTypes) subjectSubmissions
            in \<lparr>ds_id = subj_id subject, ds_cie = m ''CIE'', ds_ta = m ''TA'',
                ds_defaulter = m ''Defaulter work''\<rparr>) subjs"

definition subjectCompleted :: "bool \<Rightarrow> dashboard_subject \<Rightarrow> nat" where
  "subjectCompleted isDefaulter subject =
     (if ds_cie subject = Some ''completed'' then 1 else 0) +
     (if ds_ta subject = Some ''completed'' then 1 else 0) +
     (if isDefaulter then (if ds_defaulter subject = Some ''completed'' then 1 else 0) else 0)"

definition completedSubmissions :: "bool \<Rightarrow> dashboard_subject list \<Rightarrow> nat" where
  "completedSubmissions isDefaulter sws =
     fold (\<lambda>subject count. count + subjectCompleted isDefaulter subject) sws 0"

definition dashboard_percentage :: "store \<Rightarrow> student \<Rightarrow> subject list \<Rightarrow> nat" where
  "dashboard_percentage db st subjs =
     (let submissions = filter (\<lambda>sub. sub_student_id sub = s_id st) (student_submissions db);
          sws = subjectsWithSubmissions (submission_types db) submissions subjs;
          isDefaulter = s_defaulter st;
          submissionsPerSubject = (if isDefaulter then 3 else 2);
          totalSubmissions = length sws * submissionsPerSubject
      in if 0 < totalSubmissions
         then js_percent (completedSubmissions isDefaulter sws) totalSubmissions
         else 0)"

text \<open>
  The subjects shown to the student. \<open>req.user\<close> is the decoded token: the student's
  id (empty when the token has none), class and batch. Of the subjects of the class, the
  theory subjects are shown to everybody and a practical subject is shown when a
  \<open>faculty_subjects\<close> row of the class assigns it to the token's batch or to no batch;
  subjects of another type are dropped. The subjects of the student's selection row are
  then pushed, each unless a subject with its id is in the list already.
\<close>

record token =
  tok_id :: string
  tok_class_id :: "ident option"
  tok_batch_id :: "ident option"

definition class_subjects :: "store \<Rightarrow> ident \<Rightarrow> ident option \<Rightarrow> subject list" where
  "class_subjects db studentClassId batch_id =
     (let allSubjects = filter (\<lambda>x. subj_class_id x = Some studentClassId) (subjects db);
          facultySubjects = filter (\<lambda>fs. fs_class_id fs = Some studentClassId) (faculty_subjects db)
      in filter (\<lambda>subject.
           if subj_type subject = Some ''theory'' then True
           else if subj_type subject = Some ''practical''
           then list_ex (\<lambda>fs. fs_subject_id fs = Some (subj_id subject) \<and>
                               (fs_batch_id fs = batch_id \<or> fs_batch_id fs = None)) facultySubjects
           else False) allSubjects)"

definition electiveSubjectIds :: "selection option \<Rightarrow> ident list" where
  "electiveSubjectIds studentSelections =
     (case studentSelections of
        None \<Rightarrow> []
      | Some r \<Rightarrow>
          (case mdm_id r of None \<Rightarrow> [] | Some i \<Rightarrow> [i]) @
          (case oe_id r of None \<Rightarrow> [] | Some i \<Rightarrow> [i]) @
          (case pe_id r of None \<Rightarrow> [] | Some i \<Rightarrow> [i]))"

definition push_elective :: "ident \<Rightarrow> subject \<Rightarrow> subject list \<Rightarrow> subject list" where
  "push_elective studentClassId elective subjs =
     (if find (\<lambda>s. subj_id s = subj_id elective) subjs = None
      then subjs @ [elective\<lparr>subj_class_id := Some studentClassId\<rparr>]
      else subjs)"

definition dashboard_subjects ::
  "store \<Rightarrow> ident \<Rightarrow> ident option \<Rightarrow> selection option \<Rightarrow> subject list" where
  "dashboard_subjects db studentClassId batch_id studentSelections =
     (let subjs = class_subjects db studentClassId batch_id;
          ids = electiveSubjectIds studentSelections
      in if 0 < length ids
         then let electiveSubjects = filter (\<lambda>x. subj_id x \<in> set ids) (subjects db)
              in fold (push_elective studentClassId) electiveSubjects subjs
         else subjs)"

text \<open>
  The answer of the route: an error response, or the student row with
  \<open>submissionPercentage\<close> and the list \<open>subjects\<close>, of whose entries the id and the
  three statuses are kept here.
\<close>

record dashboard_data =
  dd_student :: student
  dd_submissionPercentage :: nat
  dd_subjects :: "dashboard_subject list"

definition dashboard :: "store \<Rightarrow> token \<Rightarrow> response + dashboard_data" where
  "dashboard db user =
     (if tok_id user = [] then Inl (Failure 400 ''Missing student_id in token'')
      else
        case maybeSingle (filter (\<lambda>s. s_id s = tok_id user) (students db)) of
          Inl studentError \<Rightarrow> Inl (Failure 500 (error_message studentError))
        | Inr None \<Rightarrow> Inl (Failure 404 ''Student not found'')
        | Inr (Some student) \<Rightarrow>
            (case (case s_class_id student of Some c \<Rightarrow> Some c | None \<Rightarrow> tok_class_id user) of
               None \<Rightarrow>
                 Inl (Failure 400
                   ''You are not assigned to a class yet. Please contact your administrator.'')
             | Some studentClassId \<Rightarrow>
                 (case maybeSingle (selection_of db (tok_id user)) of
                    Inl selectionsError \<Rightarrow> Inl (Failure 500 (error_message selectionsError))
                  | Inr studentSelections \<Rightarrow>
                      let subjs = dashboard_subjects db studentClassId (tok_batch_id user)
                                    studentSelections;
                          submissions = filter (\<lambda>sub. sub_student_id sub = tok_id user)
                                          (student_submissions db)
                      in Inr \<lparr>dd_student = student,
                              dd_submissionPercentage = dashboard_percentage db student subjs,
                              dd_subjects = subjectsWithSubmissions (submission_types db)
                                              submissions subjs\<rparr>)))"

text \<open>
  The specification's count, over the ids of the subjects shown: per subject one for a
  completed TA row, one for a completed CIE row, and one for a completed Defaulter work
  row when the student is a defaulter. A row is of the type called \<open>nm\<close> when
  \<open>submission_types\<close> has a row with its type id and that name. The specification's
  percentage is that count divided by \<open>n * k\<close>, times 100, rounded as a number.
\<close>

definition completed_of_type ::
  "store \<Rightarrow> student \<Rightarrow> ident \<Rightarrow> string \<Rightarrow> bool" where
  "completed_of_type db st subject_id nm =
     (\<exists>sub \<in> set (student_submissions db).
        sub_student_id sub = s_id st \<and> sub_subject_id sub = subject_id \<and>
        (\<exists>t \<in> set (submission_types db). st_id t = sub_type_id sub \<and> st_name t = nm) \<and>
        sub_status sub = ''completed'')"

definition claimed_completed :: "store \<Rightarrow> student \<Rightarrow> ident list \<Rightarrow> nat" where
  "claimed_completed db st ids =
     sum_list (map (\<lambda>subject_id.
        (if completed_of_type db st subject_id ''TA'' then 1 else 0) +
        (if completed_of_type db st subject_id ''CIE'' then 1 else 0) +
        (if s_defaulter st
         then (if completed_of_type db st subject_id ''Defaulter work'' then 1 else 0)
         else 0)) ids)"

definition exact_percent :: "nat \<Rightarrow> nat \<Rightarrow> rat" where
  "exact_percent c t = of_nat c / of_nat t * 100"

definition claimed_percentage :: "store \<Rightarrow> student \<Rightarrow> ident list \<Rightarrow> int" where
  "claimed_percentage db st ids =
     (let n = length ids; k = (if s_defaulter st then 3 else 2)
      in round (exact_percent (claimed_completed db st ids) (n * k)))"

section \<open>Class, department and year rollups\<close>

text \<open>
  The same block computes the numerator in \<open>/dashboard-statistics\<close> (class),
  \<open>/department-statistics\<close> and \<open>/year-statistics\<close>: a \<open>Set\<close> of the student ids
  of the fetched rows that are completed and of type TA or CIE.
\<close>

definition studentsWithSubmissions :: "submission_type list \<Rightarrow> submission list \<Rightarrow> ident set" where
  "studentsWithSubmissions submissionTypes submissions =
     (let taType = findType submissionTypes ''TA'';
          cieType = findType submissionTypes ''CIE''
      in fold (\<lambda>sub acc.
                 if sub_status sub = ''completed'' \<and> (hasTypeId taType sub \<or> hasTypeId cieType sub)
                 then insert (sub_student_id sub) acc else acc) submissions {})"

definition rollup_percentage :: "store \<Rightarrow> student list \<Rightarrow> nat" where
  \<comment> \<open>from \<open>totalStudents\<close> on, for the students in scope\<close>
  "rollup_percentage db studs =
     (let totalStudents = length studs
      in if totalStudents = 0 then 0
         else
           let studentIds = map s_id studs;
               submissions = filter (\<lambda>sub. sub_student_id sub \<in> set studentIds)
                               (student_submissions db)
           in js_percent (card (studentsWithSubmissions (submission_types db) submissions))
                totalStudents)"

definition class_overallSubmission :: "store \<Rightarrow> ident \<Rightarrow> nat" where
  \<comment> \<open>\<open>statistics.overallSubmission\<close>, for a token that carries a class id\<close>
  "class_overallSubmission db class_id =
     rollup_percentage db (filter (\<lambda>s. s_class_id s = Some class_id) (students db))"

definition students_in_classes :: "store \<Rightarrow> ident list \<Rightarrow> student list" where
  \<comment> \<open>\<open>.from("students").in("class_id", classIds)\<close>\<close>
  "students_in_classes db classIds =
     filter (\<lambda>s. case s_class_id s of None \<Rightarrow> False | Some c \<Rightarrow> c \<in> set classIds) (students db)"

definition department_submissionRate :: "store \<Rightarrow> ident \<Rightarrow> nat" where
  "department_submissionRate db dept =
     (let classIds = map cls_id (filter (\<lambda>c. cls_department_id c = Some dept) (classes db))
      in if length classIds = 0 then 0
         else rollup_percentage db (students_in_classes db classIds))"

definition year_percentage :: "store \<Rightarrow> ident \<Rightarrow> nat \<Rightarrow> nat" where
  \<comment> \<open>the entry of \<open>yearGroups\<close> for one year of the department\<close>
  "year_percentage db department_id yr =
     (let clss = filter (\<lambda>c. cls_department_id c = Some department_id) (classes db);
          classIds = map cls_id (filter (\<lambda>c. cls_year c = yr) clss)
      in rollup_percentage db (students_in_classes db classIds))"

text \<open>
  The numerator as the specification states it (both a completed TA row and a completed CIE row),
  and as the routes compute it (a completed row of either type).
\<close>

definition completed_typed :: "store \<Rightarrow> student \<Rightarrow> string \<Rightarrow> bool" where
  "completed_typed db st nm =
     (\<exists>sub \<in> set (student_submissions db).
        sub_student_id sub = s_id st \<and> sub_status sub = ''completed'' \<and>
        hasTypeId (findType (submission_types db) nm) sub)"

definition both_completed_count :: "store \<Rightarrow> student list \<Rightarrow> nat" where
  "both_completed_count db studs =
     card (s_id ` set (filter (\<lambda>st. completed_typed db st ''TA'' \<and> completed_typed db st ''CIE'') studs))"

definition either_completed_count :: "store \<Rightarrow> student list \<Rightarrow> nat" where
  "either_completed_count db studs =
     card (s_id ` set (filter (\<lambda>st. completed_typed db st ''TA'' \<or> completed_typed db st ''CIE'') studs))"

section \<open>Elective selection: select, lock and the class teacher's update\<close>

definition update_selection :: "store \<Rightarrow> ident \<Rightarrow> (selection \<Rightarrow> selection) \<Rightarrow> store" where
  \<comment> \<open>\<open>.update(data).eq("student_id", id)\<close>\<close>
  "update_selection db student_id f =
     db\<lparr>student_subject_selection :=
          map (\<lambda>r. if sel_student_id r = student_id then f r else r)
            (student_subject_selection db)\<rparr>"

definition insert_selection :: "store \<Rightarrow> selection \<Rightarrow> store" where
  "insert_selection db r =
     db\<lparr>student_subject_selection := student_subject_selection db @ [r]\<rparr>"

definition new_selection :: "ident \<Rightarrow> selection" where
  \<comment> \<open>an inserted row before its columns are given: every elective column null\<close>
  "new_selection student_id =
     \<lparr>sel_student_id = student_id, mdm_id = None, oe_id = None, pe_id = None,
      mdm_faculty_id = None, oe_faculty_id = None, pe_faculty_id = None,
      selections_locked = False\<rparr>"

subsection \<open>\<open>router.post("/select-elective")\<close>\<close>

definition updateData :: "string \<Rightarrow> ident \<Rightarrow> ident \<Rightarrow> selection \<Rightarrow> selection" where
  "updateData type subject_id faculty_id r =
     (if type = ''MDM'' then r\<lparr>mdm_id := Some subject_id, mdm_faculty_id := Some faculty_id\<rparr>
      else if type = ''OE'' then r\<lparr>oe_id := Some subject_id, oe_faculty_id := Some faculty_id\<rparr>
      else if type = ''PE'' then r\<lparr>pe_id := Some subject_id, pe_faculty_id := Some faculty_id\<rparr>
      else r)"

definition facultySubject :: "store \<Rightarrow> ident \<Rightarrow> ident \<Rightarrow> faculty_subject list" where
  \<comment> \<open>\<open>.from("faculty_subjects").eq("subject_id", subject_id).eq("faculty_id", faculty_id)\<close>\<close>
  "facultySubject db subject_id faculty_id =
     filter (\<lambda>fs. fs_subject_id fs = Some subject_id \<and> fs_faculty_id fs = faculty_id)
       (faculty_subjects db)"

definition not_teaching :: response where
  "not_teaching = Failure 400 ''Selected faculty does not teach the given subject.''"

definition locked_response :: response where
  "locked_response =
     Failure 403 ''Your subject selections are locked. Contact your class teacher to make changes.''"

definition select_elective ::
  "store \<Rightarrow> ident \<Rightarrow> string \<Rightarrow> string \<Rightarrow> string \<Rightarrow> response \<times> store" where
  "select_elective db student_id subject_id faculty_id type =
     (if subject_id = [] \<or> faculty_id = [] \<or> type = []
      then (Failure 400 ''subject_id, faculty_id, and type are required.'', db)
      else if type \<notin> set [''MDM'', ''OE'', ''PE'']
      then (Failure 400 ''Invalid type. Must be one of: MDM, OE, or PE.'', db)
      else
        case maybeSingle (selection_of db student_id) of
          Inl e \<Rightarrow> (Failure 500 (error_message e), db)
        | Inr existing \<Rightarrow>
            if (case existing of None \<Rightarrow> False | Some r \<Rightarrow> selections_locked r)
            then (locked_response, db)
            else
              (case maybeSingle (facultySubject db subject_id faculty_id) of
                 Inl fsError \<Rightarrow> (not_teaching, db)
               | Inr None \<Rightarrow> (not_teaching, db)
               | Inr (Some fs) \<Rightarrow>
                   (case existing of
                      Some r \<Rightarrow>
                        (Success 200 (type @ '' subject selection updated successfully.''),
                         update_selection db student_id (updateData type subject_id faculty_id))
                    | None \<Rightarrow>
                        (Success 201 (type @ '' subject selected successfully.''),
                         insert_selection db
                           (updateData type subject_id faculty_id (new_selection student_id))))))"

subsection \<open>\<open>router.post("/lock-selections")\<close>\<close>

definition missingSubjects :: "nat \<Rightarrow> selection \<Rightarrow> string list" where
  "missingSubjects classYear selections =
     (if classYear = 2
      then (if oe_id selections = None then [''OE''] else []) @
           (if mdm_id selections = None then [''MDM''] else [])
      else if classYear = 3
      then (if oe_id selections = None then [''OE''] else []) @
           (if mdm_id selections = None then [''MDM''] else []) @
           (if pe_id selections = None then [''PE''] else [])
      else if classYear = 4
      then (if oe_id selections = None then [''OE''] else []) @
           (if pe_id selections = None then [''PE''] else [])
      else [])"

definition incomplete_response :: "string list \<Rightarrow> response" where
  "incomplete_response missing =
     Failure 400 (''Please select all required elective subjects ('' @ join '', '' missing @
                  '') before locking.'')"

definition no_selections_response :: response where
  "no_selections_response =
     Failure 400 ''No elective selections found. Please select your elective subjects first.''"

definition locked_ok :: response where
  "locked_ok = Success 200 ''Your elective selections have been locked successfully.''"

definition lock_selections :: "store \<Rightarrow> ident \<Rightarrow> ident \<Rightarrow> response \<times> store" where
  "lock_selections db student_id class_id =
     (case maybeSingle (filter (\<lambda>c. cls_id c = class_id) (classes db)) of
        Inl e \<Rightarrow> (Failure 500 (error_message e), db)
      | Inr classInfo \<Rightarrow>
          let classYear = (case classInfo of
                             None \<Rightarrow> 1
                           | Some c \<Rightarrow> if cls_year c = 0 then 1 else cls_year c)
          in case maybeSingle (selection_of db student_id) of
               Inl e \<Rightarrow> (Failure 500 (error_message e), db)
             | Inr None \<Rightarrow> (no_selections_response, db)
             | Inr (Some selections) \<Rightarrow>
                 let missing = missingSubjects classYear selections
                 in if 0 < length missing then (incomplete_response missing, db)
                    else (locked_ok,
                          update_selection db student_id (\<lambda>r. r\<lparr>selections_locked := True\<rparr>)))"

text \<open>The year-requirement table of the specification, and the categories it misses.\<close>

definition required_categories :: "nat \<Rightarrow> string list" where
  "required_categories yr =
     (if yr = 2 then [''OE'', ''MDM'']
      else if yr = 3 then [''OE'', ''MDM'', ''PE'']
      else if yr = 4 then [''OE'', ''PE'']
      else [])"

definition category_id :: "selection \<Rightarrow> string \<Rightarrow> ident option" where
  "category_id r c =
     (if c = ''MDM'' then mdm_id r else if c = ''OE'' then oe_id r
      else if c = ''PE'' then pe_id r else None)"

definition missing_required :: "nat \<Rightarrow> selection \<Rightarrow> string list" where
  "missing_required yr r = filter (\<lambda>c. category_id r c = None) (required_categories yr)"

subsection \<open>\<open>router.put("/student/:id")\<close> of the class-teacher routes\<close>

text \<open>
  A request field that is absent is \<open>None\<close>; the update sends only the fields that
  are present, and always sends \<open>defaulter\<close>.
\<close>

record elective_body =
  eb_mdm_id :: "string option"
  eb_oe_id :: "string option"
  eb_pe_id :: "string option"
  eb_mdm_faculty_id :: "string option"
  eb_oe_faculty_id :: "string option"
  eb_pe_faculty_id :: "string option"

record student_body =
  b_name :: "string option"
  b_roll_no :: "nat option"
  b_attendance_percent :: "rat option"
  b_batch_id :: "ident option"
  b_defaulter :: "bool option"
  b_electiveSelections :: "elective_body option"

definition finalDefaulter :: "student_body \<Rightarrow> bool" where
  "finalDefaulter body =
     (case b_defaulter body of
        Some d \<Rightarrow> d
      | None \<Rightarrow> (case b_attendance_percent body of None \<Rightarrow> False | Some a \<Rightarrow> a < 75))"

definition update_student_row :: "student_body \<Rightarrow> student \<Rightarrow> student" where
  "update_student_row body s =
     s\<lparr>s_name := (case b_name body of None \<Rightarrow> s_name s | Some n \<Rightarrow> n),
       s_roll_no := (case b_roll_no body of None \<Rightarrow> s_roll_no s | Some n \<Rightarrow> n),
       s_attendance_percent :=
         (case b_attendance_percent body of None \<Rightarrow> s_attendance_percent s | Some a \<Rightarrow> Some a),
       s_batch_id := (case b_batch_id body of None \<Rightarrow> s_batch_id s | Some b \<Rightarrow> Some b),
       s_defaulter := finalDefaulter body\<rparr>"

definition selectionsData :: "elective_body \<Rightarrow> selection \<Rightarrow> selection" where
  "selectionsData es r =
     r\<lparr>mdm_id := or_null (eb_mdm_id es), oe_id := or_null (eb_oe_id es),
       pe_id := or_null (eb_pe_id es), mdm_faculty_id := or_null (eb_mdm_faculty_id es),
       oe_faculty_id := or_null (eb_oe_faculty_id es),
       pe_faculty_id := or_null (eb_pe_faculty_id es)\<rparr>"

definition student_updated :: response where
  "student_updated = Success 200 ''Student updated successfully''"

definition update_student :: "store \<Rightarrow> string \<Rightarrow> string \<Rightarrow> student_body \<Rightarrow> response \<times> store" where
  "update_student db classId sid body =
     (if sid = [] \<or> classId = [] then (Failure 400 ''Missing student ID or class ID'', db)
      else
        case single (filter (\<lambda>s. s_id s = sid) (students db)) of
          Inl fetchError \<Rightarrow> (Failure 404 ''Student not found'', db)
        | Inr st \<Rightarrow>
            if s_class_id st \<noteq> Some classId
            then (Failure 403 ''Unauthorized to edit this student'', db)
            else
              let db1 = db\<lparr>students :=
                             map (\<lambda>s. if s_id s = sid then update_student_row body s else s)
                               (students db)\<rparr>
              in case b_electiveSelections body of
                   None \<Rightarrow> (student_updated, db1)
                 | Some es \<Rightarrow>
                     (case maybeSingle (selection_of db1 sid) of
                        Inl e \<Rightarrow> (Failure 500 (error_message e), db1)
                      | Inr (Some existing) \<Rightarrow>
                          (student_updated, update_selection db1 sid (selectionsData es))
                      | Inr None \<Rightarrow>
                          (student_updated,
                           insert_selection db1 (selectionsData es (new_selection sid)))))"

text \<open>
  The pairing invariant of a selection row: a non-null subject of a category comes with
  a faculty that teaches it by a \<open>faculty_subjects\<close> row or an offered-subject entry.
\<close>

definition teaches :: "store \<Rightarrow> ident \<Rightarrow> ident \<Rightarrow> bool" where
  "teaches db faculty_id subject_id =
     ((\<exists>fs \<in> set (faculty_subjects db).
         fs_faculty_id fs = faculty_id \<and> fs_subject_id fs = Some subject_id) \<or>
      (\<exists>os \<in> set (department_offered_subjects db).
         os_subject_id os = subject_id \<and>
         (case os_faculty_ids os of None \<Rightarrow> False | Some fids \<Rightarrow> faculty_id \<in> set fids)))"

definition pair_valid :: "store \<Rightarrow> ident option \<Rightarrow> ident option \<Rightarrow> bool" where
  "pair_valid db subject_id faculty_id =
     (case subject_id of
        None \<Rightarrow> True
      | Some s \<Rightarrow> (case faculty_id of None \<Rightarrow> False | Some f \<Rightarrow> teaches db f s))"

definition selection_valid :: "store \<Rightarrow> selection \<Rightarrow> bool" where
  "selection_valid db r =
     (pair_valid db (mdm_id r) (mdm_faculty_id r) \<and>
      pair_valid db (oe_id r) (oe_faculty_id r) \<and>
      pair_valid db (pe_id r) (pe_faculty_id r))"

definition selections_valid :: "store \<Rightarrow> bool" where
  "selections_valid db = list_all (selection_valid db) (student_subject_selection db)"

section \<open>Marking a submission\<close>

text \<open>
  \<open>router.post("/mark-submission")\<close>: the only writer of \<open>student_submissions\<close>. It
  looks the row of the student, subject and type up and updates it, and inserts a row
  only when there is none.
\<close>

definition submission_rows :: "store \<Rightarrow> ident \<Rightarrow> ident \<Rightarrow> ident \<Rightarrow> submission list" where
  "submission_rows db student_id subject_id submission_type_id =
     filter (\<lambda>sub. sub_student_id sub = student_id \<and> sub_subject_id sub = subject_id \<and>
                   sub_type_id sub = submission_type_id) (student_submissions db)"

definition mark_submission ::
  "store \<Rightarrow> ident \<Rightarrow> string \<Rightarrow> string \<Rightarrow> string \<Rightarrow> string \<Rightarrow> response \<times> store" where
  "mark_submission db marked_by student_id subject_id submission_type status =
     (if student_id = [] \<or> subject_id = [] \<or> submission_type = [] \<or> status = []
      then (Failure 400 ''student_id, subject_id, submission_type, and status are required.'', db)
      else if toLowerCase status \<notin> set [''pending'', ''completed'']
      then (Failure 400 ''Status must be 'pending' or 'completed'.'', db)
      else
        case maybeSingle (facultySubject db subject_id marked_by) of
          Inl e \<Rightarrow> (Failure 500 (error_message e), db)
        | Inr None \<Rightarrow>
            (Failure 403 ''You are not authorized to mark submissions for this subject.'', db)
        | Inr (Some allowedSubject) \<Rightarrow>
            (case maybeSingle (filter (\<lambda>t. st_name t = submission_type) (submission_types db)) of
               Inl e \<Rightarrow> (Failure 500 (error_message e), db)
             | Inr None \<Rightarrow> (Failure 400 (''Invalid submission_type: '' @ submission_type @ ''.''), db)
             | Inr (Some subType) \<Rightarrow>
                 (case maybeSingle (submission_rows db student_id subject_id (st_id subType)) of
                    Inl e \<Rightarrow> (Failure 500 (error_message e), db)
                  | Inr (Some existing) \<Rightarrow>
                      (Success 200 (submission_type @ '' submission updated to '' @ status @
                                    '' successfully.''),
                       db\<lparr>student_submissions :=
                            map (\<lambda>sub. if sub = existing then sub\<lparr>sub_status := status\<rparr> else sub)
                              (student_submissions db)\<rparr>)
                  | Inr None \<Rightarrow>
                      (Success 201 (submission_type @ '' submission marked as '' @ status @
                                    '' successfully.''),
                       db\<lparr>student_submissions :=
                            student_submissions db @
                            [\<lparr>sub_student_id = student_id, sub_subject_id = subject_id,
                              sub_type_id = st_id subType, sub_status = status\<rparr>]\<rparr>))))"

section \<open>Elective eligibility\<close>

text \<open>
  \<open>router.get("/elective-subjects")\<close> of the student routes and
  \<open>router.get("/elective-subjects/:studentId")\<close> of the class-teacher routes. An
  offered row carries its subject through the embedded \<open>subjects ( ... )\<close> select, null
  when the subject row is gone. A JavaScript \<open>Set\<close> built from an array keeps the
  first occurrence of each element.
\<close>

definition Set_from :: "'a list \<Rightarrow> 'a list" where
  "Set_from xs = fold (\<lambda>x acc. if x \<in> set acc then acc else acc @ [x]) xs []"

record elective_entry =
  ee_id :: ident
  ee_code :: "string option"
  ee_name :: "string option"
  ee_semester :: "nat option"
  ee_faculties :: "(ident \<times> string) list"

record electives =
  el_mdm :: "elective_entry list"
  el_oe :: "elective_entry list"
  el_pe :: "elective_entry list"

definition setFaculty :: "user_row \<Rightarrow> (ident \<rightharpoonup> string) \<Rightarrow> (ident \<rightharpoonup> string)" where
  "setFaculty u m = m(u_id u \<mapsto> u_name u)"

definition facultyMap :: "store \<Rightarrow> offered_subject list \<Rightarrow> (ident \<rightharpoonup> string)" where
  "facultyMap db offeredSubjects =
     (let allFacultyIds = Set_from (concat (map (\<lambda>os. case os_faculty_ids os of
                                                       None \<Rightarrow> [] | Some fids \<Rightarrow> fids)
                                         offeredSubjects));
          faculties = filter (\<lambda>u. u_id u \<in> set allFacultyIds) (users db)
      in fold setFaculty faculties Map.empty)"

definition facultyOptions :: "(ident \<rightharpoonup> string) \<Rightarrow> offered_subject \<Rightarrow> (ident \<times> string) list" where
  "facultyOptions fm offered =
     map (\<lambda>fId. (fId, case fm fId of
                        None \<Rightarrow> ''Unknown Faculty''
                      | Some n \<Rightarrow> if n = [] then ''Unknown Faculty'' else n))
       (case os_faculty_ids offered of None \<Rightarrow> [] | Some fids \<Rightarrow> fids)"

definition joined_subject :: "store \<Rightarrow> ident \<Rightarrow> subject option" where
  "joined_subject db subject_id = find (\<lambda>s. subj_id s = subject_id) (subjects db)"

definition lowered :: "string option \<Rightarrow> string" where
  \<comment> \<open>\<open>(v || '').toLowerCase()\<close>\<close>
  "lowered v = toLowerCase (case v of None \<Rightarrow> [] | Some s \<Rightarrow> s)"

definition activeOffered :: "store \<Rightarrow> nat \<Rightarrow> offered_subject list" where
  \<comment> \<open>\<open>.from("department_offered_subjects").eq("year", year).eq("is_active", true)\<close>\<close>
  "activeOffered db yr =
     filter (\<lambda>os. os_year os = yr \<and> os_is_active os) (department_offered_subjects db)"

definition empty_electives :: electives where
  "empty_electives = \<lparr>el_mdm = [], el_oe = [], el_pe = []\<rparr>"

definition categorize_student ::
  "store \<Rightarrow> nat \<Rightarrow> ident option \<Rightarrow> (ident \<rightharpoonup> string) \<Rightarrow> offered_subject \<Rightarrow> electives \<Rightarrow> electives" where
  "categorize_student db year department_id fm offered acc =
     (case joined_subject db (os_subject_id offered) of
        None \<Rightarrow> acc
      | Some subject \<Rightarrow>
          let subjectData = \<lparr>ee_id = subj_id subject, ee_code = subj_code subject,
                             ee_name = subj_name subject, ee_semester = Some (os_semester offered),
                             ee_faculties = facultyOptions fm offered\<rparr>;
              subjectType = lowered (subj_type subject);
              subjectName = lowered (subj_name subject)
          in if (year = 2 \<or> year = 3) \<and>
                (subjectType = ''mdm'' \<or> includes_str subjectName ''multidisciplinary'' \<or>
                 includes_str subjectName ''mdm'')
             then acc\<lparr>el_mdm := el_mdm acc @ [subjectData]\<rparr>
             else if (year = 2 \<or> year = 3 \<or> year = 4) \<and>
                     (subjectType = ''oe'' \<or> includes_str subjectName ''open elective'' \<or>
                      includes_str subjectName ''oe'')
             then acc\<lparr>el_oe := el_oe acc @ [subjectData]\<rparr>
             else if (year = 3 \<or> year = 4) \<and>
                     (subjectType = ''pe'' \<or> includes_str subjectName ''professional elective'' \<or>
                      includes_str subjectName ''pe'')
             then (if os_department_id offered = department_id
                   then acc\<lparr>el_pe := el_pe acc @ [subjectData]\<rparr>
                   else acc)
             else acc)"

definition student_elective_subjects ::
  "store \<Rightarrow> ident \<Rightarrow> ident \<Rightarrow> response + electives \<times> selection option" where
  "student_elective_subjects db student_id class_id =
     (case maybeSingle (filter (\<lambda>c. cls_id c = class_id) (classes db)) of
        Inl e \<Rightarrow> Inl (Failure 500 (error_message e))
      | Inr None \<Rightarrow> Inl (Failure 404 ''Class not found'')
      | Inr (Some classInfo) \<Rightarrow>
          let year = cls_year classInfo;
              department_id = cls_department_id classInfo;
              offeredSubjects = activeOffered db year;
              fm = facultyMap db offeredSubjects
          in case maybeSingle (selection_of db student_id) of
               Inl e \<Rightarrow> Inl (Failure 500 (error_message e))
             | Inr currentSelections \<Rightarrow>
                 Inr (fold (categorize_student db year department_id fm) offeredSubjects
                        empty_electives,
                      currentSelections))"

definition categorize_teacher ::
  "store \<Rightarrow> ident option \<Rightarrow> (ident \<rightharpoonup> string) \<Rightarrow> offered_subject \<Rightarrow> electives \<Rightarrow> electives" where
  "categorize_teacher db department_id fm offered acc =
     (case joined_subject db (os_subject_id offered) of
        None \<Rightarrow> acc
      | Some subject \<Rightarrow>
          let subjectData = \<lparr>ee_id = subj_id subject, ee_code = subj_code subject,
                             ee_name = subj_name subject, ee_semester = None,
                             ee_faculties = facultyOptions fm offered\<rparr>;
              subjectType = lowered (subj_type subject);
              subjectName = lowered (subj_name subject)
          in if subjectType = ''mdm'' \<or> includes_str subjectName ''multidisciplinary''
             then acc\<lparr>el_mdm := el_mdm acc @ [subjectData]\<rparr>
             else if subjectType = ''oe'' \<or> includes_str subjectName ''open elective''
             then acc\<lparr>el_oe := el_oe acc @ [subjectData]\<rparr>
             else if subjectType = ''pe'' \<or> includes_str subjectName ''professional elective''
             then (if os_department_id offered = department_id
                   then acc\<lparr>el_pe := el_pe acc @ [subjectData]\<rparr>
                   else acc)
             else acc)"

definition teacher_elective_subjects ::
  "store \<Rightarrow> ident \<Rightarrow> ident \<Rightarrow> response + electives \<times> selection option" where
  "teacher_elective_subjects db class_id studentId =
     (case single (filter (\<lambda>s. s_id s = studentId) (students db)) of
        Inl studentError \<Rightarrow> Inl (Failure 404 ''Student not found'')
      | Inr st \<Rightarrow>
          if s_class_id st \<noteq> Some class_id
          then Inl (Failure 403 ''You can only view students in your class'')
          else
            case single (filter (\<lambda>c. cls_id c = class_id) (classes db)) of
              Inl e \<Rightarrow> Inl (Failure 500 (error_message e))
            | Inr classInfo \<Rightarrow>
                let offeredSubjects = activeOffered db (cls_year classInfo);
                    fm = facultyMap db offeredSubjects
                in case maybeSingle (selection_of db studentId) of
                     Inl e \<Rightarrow> Inl (Failure 500 (error_message e))
                   | Inr currentSelections \<Rightarrow>
                       Inr (fold (categorize_teacher db (cls_department_id classInfo) fm)
                              offeredSubjects empty_electives,
                            currentSelections))"

text \<open>
  An entry of a bucket comes from the department when an offered row of that department
  carries its subject.
\<close>

definition from_department :: "store \<Rightarrow> offered_subject list \<Rightarrow> ident option \<Rightarrow> elective_entry \<Rightarrow> bool" where
  "from_department db offeredSubjects department_id e =
     (\<exists>os \<in> set offeredSubjects. os_department_id os = department_id \<and>
        (\<exists>subject. joined_subject db (os_subject_id os) = Some subject \<and> ee_id e = subj_id subject))"

section \<open>The students of a faculty and subject\<close>

subsection \<open>The submission-marking list: \<open>router.get("/students")\<close> of the submission routes\<close>

definition assignment_students :: "store \<Rightarrow> faculty_subject \<Rightarrow> student list" where
  \<comment> \<open>the students query of one assignment; a null \<open>class_id\<close> matches no row\<close>
  "assignment_students db assignment =
     order_by_roll_no
       (filter (\<lambda>st. fs_class_id assignment \<noteq> None \<and> s_class_id st = fs_class_id assignment \<and>
                     (case fs_batch_id assignment of
                        None \<Rightarrow> True
                      | Some b \<Rightarrow> s_batch_id st = Some b))
          (students db))"

definition direct_students :: "store \<Rightarrow> ident \<Rightarrow> ident \<Rightarrow> student list" where
  "direct_students db faculty_id subject_id =
     (let facultySubjects = filter (\<lambda>fs. fs_faculty_id fs = faculty_id \<and>
                                        fs_subject_id fs = Some subject_id) (faculty_subjects db)
      in concat (map (assignment_students db) facultySubjects))"

definition electiveSelections :: "store \<Rightarrow> ident \<Rightarrow> selection list" where
  \<comment> \<open>\<open>.or(mdm_faculty_id.eq.f, oe_faculty_id.eq.f, pe_faculty_id.eq.f)\<close>\<close>
  "electiveSelections db faculty_id =
     filter (\<lambda>r. mdm_faculty_id r = Some faculty_id \<or> oe_faculty_id r = Some faculty_id \<or>
                 pe_faculty_id r = Some faculty_id) (student_subject_selection db)"

definition selected_with :: "ident \<Rightarrow> ident \<Rightarrow> selection \<Rightarrow> bool" where
  "selected_with faculty_id subject_id selection =
     ((mdm_faculty_id selection = Some faculty_id \<and> mdm_id selection = Some subject_id) \<or>
      (oe_faculty_id selection = Some faculty_id \<and> oe_id selection = Some subject_id) \<or>
      (pe_faculty_id selection = Some faculty_id \<and> pe_id selection = Some subject_id))"

definition elective_students :: "store \<Rightarrow> ident \<Rightarrow> ident \<Rightarrow> student list" where
  "elective_students db faculty_id subject_id =
     (let electiveStudentIds =
            map sel_student_id
              (filter (selected_with faculty_id subject_id) (electiveSelections db faculty_id))
      in if 0 < length electiveStudentIds
         then order_by_roll_no (filter (\<lambda>st. s_id st \<in> set electiveStudentIds) (students db))
         else [])"

definition uniqueStudentsMap :: "student list \<Rightarrow> (ident \<times> student) list" where
  \<comment> \<open>a \<open>Map\<close> in insertion order: a student is set only when the id is not a key yet\<close>
  "uniqueStudentsMap allStudents =
     fold (\<lambda>st m. if s_id st \<in> fst ` set m then m else m @ [(s_id st, st)]) allStudents []"

definition uniqueStudents :: "student list \<Rightarrow> student list" where
  "uniqueStudents allStudents = map snd (uniqueStudentsMap allStudents)"

definition marking_students :: "store \<Rightarrow> ident \<Rightarrow> ident \<Rightarrow> student list" where
  "marking_students db faculty_id subject_id =
     uniqueStudents (direct_students db faculty_id subject_id @
                     elective_students db faculty_id subject_id)"

subsection \<open>The faculty's view of its students: \<open>router.get('/students')\<close> of the faculty routes\<close>

record student_with_subject =
  sws_student :: student
  sws_subject_id :: ident
  sws_subject_name :: "string option"
  sws_subject_code :: "string option"
  sws_subject_type :: "string option"

definition with_subject :: "student \<Rightarrow> subject \<Rightarrow> student_with_subject" where
  "with_subject st subject =
     \<lparr>sws_student = st, sws_subject_id = subj_id subject, sws_subject_name = subj_name subject,
      sws_subject_code = subj_code subject, sws_subject_type = subj_type subject\<rparr>"

definition assignment_subject :: "store \<Rightarrow> faculty_subject \<Rightarrow> subject option" where
  \<comment> \<open>the embedded \<open>subjects ( ... )\<close> of a \<open>faculty_subjects\<close> row\<close>
  "assignment_subject db assignment =
     (case fs_subject_id assignment of None \<Rightarrow> None | Some i \<Rightarrow> joined_subject db i)"

definition isApplicable :: "faculty_subject \<Rightarrow> student \<Rightarrow> bool" where
  "isApplicable assignment st =
     (fs_class_id assignment = s_class_id st \<and>
      (fs_batch_id assignment = None \<or> fs_batch_id assignment = s_batch_id st))"

definition assigned_entries :: "store \<Rightarrow> ident \<Rightarrow> student_with_subject list" where
  "assigned_entries db facultyId =
     (let assignments = filter (\<lambda>fs. fs_faculty_id fs = facultyId) (faculty_subjects db);
          classIds = Set_from (concat (map (\<lambda>a. case fs_class_id a of None \<Rightarrow> [] | Some c \<Rightarrow> [c])
                                         assignments));
          allStudents =
            (if 0 < length classIds
             then order_by_roll_no
                    (filter (\<lambda>st. case s_class_id st of None \<Rightarrow> False | Some c \<Rightarrow> c \<in> set classIds)
                       (students db))
             else [])
      in concat (map (\<lambda>st.
           concat (map (\<lambda>assignment.
              case assignment_subject db assignment of
                None \<Rightarrow> []
              | Some subject \<Rightarrow> if isApplicable assignment st then [with_subject st subject] else [])
            assignments)) allStudents))"

definition selected_subject_ids :: "ident \<Rightarrow> selection \<Rightarrow> ident list" where
  \<comment> \<open>the subjects a selection row takes with this faculty, MDM, OE, PE in turn\<close>
  "selected_subject_ids facultyId selection =
     (if mdm_faculty_id selection = Some facultyId
      then (case mdm_id selection of None \<Rightarrow> [] | Some i \<Rightarrow> [i]) else []) @
     (if oe_faculty_id selection = Some facultyId
      then (case oe_id selection of None \<Rightarrow> [] | Some i \<Rightarrow> [i]) else []) @
     (if pe_faculty_id selection = Some facultyId
      then (case pe_id selection of None \<Rightarrow> [] | Some i \<Rightarrow> [i]) else [])"

definition elective_entries :: "store \<Rightarrow> ident \<Rightarrow> student_with_subject list" where
  "elective_entries db facultyId =
     (let selections = electiveSelections db facultyId;
          electiveStudentIds = Set_from (map sel_student_id selections)
      in if 0 < length electiveStudentIds
         then
           let electiveStudents =
                 order_by_roll_no (filter (\<lambda>st. s_id st \<in> set electiveStudentIds) (students db));
               electiveSubjectIds = Set_from (concat (map (selected_subject_ids facultyId) selections));
               electiveSubjects = filter (\<lambda>x. subj_id x \<in> set electiveSubjectIds) (subjects db);
               subjectMap = (\<lambda>i. find (\<lambda>x. subj_id x = i) (rev electiveSubjects))
           in concat (map (\<lambda>st.
                case find (\<lambda>r. sel_student_id r = s_id st) selections of
                  None \<Rightarrow> []
                | Some selection \<Rightarrow>
                    concat (map (\<lambda>i. case subjectMap i of
                                        None \<Rightarrow> []
                                      | Some subject \<Rightarrow> [with_subject st subject])
                              (selected_subject_ids facultyId selection)))
              electiveStudents)
         else [])"

definition faculty_students :: "store \<Rightarrow> ident \<Rightarrow> student_with_subject list" where
  "faculty_students db facultyId = assigned_entries db facultyId @ elective_entries db facultyId"

definition view_students :: "store \<Rightarrow> ident \<Rightarrow> ident \<Rightarrow> student list" where
  \<comment> \<open>the students the faculty's view lists under one subject\<close>
  "view_students db facultyId subject_id =
     map sws_student (filter (\<lambda>e. sws_subject_id e = subject_id) (faculty_students db facultyId))"

text \<open>
  The two ways a student is enrolled with a faculty for a subject, as the specification
  words them, the subjects that some selection takes with the faculty, and the first
  occurrences of a list of students by id.
\<close>

definition directly_assigned :: "store \<Rightarrow> ident \<Rightarrow> ident \<Rightarrow> student \<Rightarrow> bool" where
  "directly_assigned db f s st =
     (\<exists>a \<in> set (faculty_subjects db).
        fs_faculty_id a = f \<and> fs_subject_id a = Some s \<and> fs_class_id a \<noteq> None \<and>
        s_class_id st = fs_class_id a \<and>
        (fs_batch_id a = None \<or> fs_batch_id a = s_batch_id st))"

definition self_selected :: "store \<Rightarrow> ident \<Rightarrow> ident \<Rightarrow> student \<Rightarrow> bool" where
  "self_selected db f s st =
     (\<exists>r \<in> set (student_subject_selection db). sel_student_id r = s_id st \<and> selected_with f s r)"

definition taken_subjects :: "store \<Rightarrow> ident \<Rightarrow> subject list" where
  "taken_subjects db f =
     filter (\<lambda>x. subj_id x \<in> set (Set_from (concat (map (selected_subject_ids f)
                                                      (electiveSelections db f)))))
       (subjects db)"

fun first_seen :: "ident set \<Rightarrow> student list \<Rightarrow> student list" where
  "first_seen seen [] = []"
| "first_seen seen (st # sts) =
     (if s_id st \<in> seen then first_seen seen sts
      else st # first_seen (insert (s_id st) seen) sts)"

section \<open>Example data\<close>

text \<open>
  A small store for the concrete instances below: one third-year class with a defaulter
  \<open>s1\<close> and a student \<open>s2\<close>, a theory subject \<open>A\<close> and a practical subject \<open>B\<close>.
\<close>

definition ex_types :: "submission_type list" where
  "ex_types = [\<lparr>st_id = ''t-ta'', st_name = ''TA''\<rparr>, \<lparr>st_id = ''t-cie'', st_name = ''CIE''\<rparr>,
               \<lparr>st_id = ''t-dw'', st_name = ''Defaulter work''\<rparr>]"

definition ex_s1 :: student where
  "ex_s1 = \<lparr>s_id = ''s1'', s_roll_no = 1, s_name = ''Asha'', s_attendance_percent = Some 60,
            s_class_id = Some ''c1'', s_batch_id = Some ''b1'', s_defaulter = True\<rparr>"

definition ex_s2 :: student where
  "ex_s2 = \<lparr>s_id = ''s2'', s_roll_no = 2, s_name = ''Ravi'', s_attendance_percent = Some 90,
            s_class_id = Some ''c1'', s_batch_id = Some ''b2'', s_defaulter = False\<rparr>"

definition ex_A :: subject where
  "ex_A = \<lparr>subj_id = ''A'', subj_name = Some ''Algebra'', subj_code = Some ''MA1'',
           subj_type = Some ''theory'', subj_class_id = Some ''c1''\<rparr>"

definition ex_B :: subject where
  "ex_B = \<lparr>subj_id = ''B'', subj_name = Some ''Physics Lab'', subj_code = Some ''PH1'',
           subj_type = Some ''practical'', subj_class_id = Some ''c1''\<rparr>"

definition ex_submissions :: "submission list" where
  "ex_submissions =
     [\<lparr>sub_student_id = ''s1'', sub_subject_id = ''A'', sub_type_id = ''t-ta'', sub_status = ''completed''\<rparr>,
      \<lparr>sub_student_id = ''s1'', sub_subject_id = ''A'', sub_type_id = ''t-cie'', sub_status = ''completed''\<rparr>,
      \<lparr>sub_student_id = ''s1'', sub_subject_id = ''A'', sub_type_id = ''t-dw'', sub_status = ''completed''\<rparr>,
      \<lparr>sub_student_id = ''s2'', sub_subject_id = ''B'', sub_type_id = ''t-ta'', sub_status = ''completed''\<rparr>,
      \<lparr>sub_student_id = ''s2'', sub_subject_id = ''B'', sub_type_id = ''t-cie'', sub_status = ''pending''\<rparr>,
      \<lparr>sub_student_id = ''s2'', sub_subject_id = ''A'', sub_type_id = ''t-ta'', sub_status = ''completed''\<rparr>]"

definition ex_db :: store where
  "ex_db = \<lparr>students = [ex_s1, ex_s2], subjects = [ex_A, ex_B],
            classes = [\<lparr>cls_id = ''c1'', cls_year = 3, cls_department_id = Some ''d1''\<rparr>],
            faculty_subjects = [], student_subject_selection = [],
            department_offered_subjects = [], student_submissions = ex_submissions,
            submission_types = ex_types, users = []\<rparr>"

text \<open>
  Faculty \<open>f1\<close> teaches the practical subject \<open>B\<close> to both batches of the class:
  two \<open>faculty_subjects\<close> rows link \<open>f1\<close> to \<open>B\<close>.
\<close>

definition ex_two_batches :: store where
  "ex_two_batches =
     ex_db\<lparr>faculty_subjects :=
       [\<lparr>fs_faculty_id = ''f1'', fs_subject_id = Some ''B'', fs_class_id = Some ''c1'',
          fs_batch_id = Some ''b1''\<rparr>,
        \<lparr>fs_faculty_id = ''f1'', fs_subject_id = Some ''B'', fs_class_id = Some ''c1'',
          fs_batch_id = Some ''b2''\<rparr>]\<rparr>"

text \<open>The tokens of \<open>s1\<close> and \<open>s2\<close>.\<close>

definition ex_token_s1 :: token where
  "ex_token_s1 = \<lparr>tok_id = ''s1'', tok_class_id = Some ''c1'', tok_batch_id = Some ''b1''\<rparr>"

definition ex_token_s2 :: token where
  "ex_token_s2 = \<lparr>tok_id = ''s2'', tok_class_id = Some ''c1'', tok_batch_id = Some ''b2''\<rparr>"

text \<open>
  Twenty theory subjects \<open>a\<close> to \<open>t\<close> in the class; \<open>s2\<close>, who is no defaulter,
  has completed TA in all of them and CIE in the first three: 23 of 40.
\<close>

definition ex_subject :: "char \<Rightarrow> subject" where
  "ex_subject x = \<lparr>subj_id = [x], subj_name = Some [x], subj_code = Some [x],
                   subj_type = Some ''theory'', subj_class_id = Some ''c1''\<rparr>"

definition ex_done :: "ident \<Rightarrow> char \<Rightarrow> submission" where
  "ex_done type_id x = \<lparr>sub_student_id = ''s2'', sub_subject_id = [x], sub_type_id = type_id,
                        sub_status = ''completed''\<rparr>"

definition ex_twenty :: store where
  "ex_twenty =
     ex_db\<lparr>subjects := map ex_subject ''abcdefghijklmnopqrst'',
           student_submissions :=
             map (ex_done ''t-ta'') ''abcdefghijklmnopqrst'' @ map (ex_done ''t-cie'') ''abc''\<rparr>"

text \<open>Selection rows of \<open>s1\<close>: everything chosen but PE, nothing chosen, and a locked row.\<close>

definition ex_missing_pe :: selection where
  "ex_missing_pe =
     \<lparr>sel_student_id = ''s1'', mdm_id = Some ''M'', oe_id = Some ''O'', pe_id = None,
      mdm_faculty_id = Some ''f1'', oe_faculty_id = Some ''f2'', pe_faculty_id = None,
      selections_locked = False\<rparr>"

definition ex_locked :: selection where
  "ex_locked =
     \<lparr>sel_student_id = ''s1'', mdm_id = Some ''M'', oe_id = Some ''O'', pe_id = Some ''P'',
      mdm_faculty_id = Some ''f1'', oe_faculty_id = Some ''f2'', pe_faculty_id = Some ''f3'',
      selections_locked = True\<rparr>"

definition ex_mdm_only :: elective_body where
  "ex_mdm_only =
     \<lparr>eb_mdm_id = Some ''A'', eb_oe_id = None, eb_pe_id = None, eb_mdm_faculty_id = None,
      eb_oe_faculty_id = None, eb_pe_faculty_id = None\<rparr>"

definition ex_stranger :: elective_body where
  "ex_stranger =
     \<lparr>eb_mdm_id = Some ''A'', eb_oe_id = None, eb_pe_id = Some '''',
      eb_mdm_faculty_id = Some ''f9'', eb_oe_faculty_id = None, eb_pe_faculty_id = None\<rparr>"

definition ex_body :: "elective_body \<Rightarrow> student_body" where
  "ex_body es =
     \<lparr>b_name = None, b_roll_no = None, b_attendance_percent = None, b_batch_id = None,
      b_defaulter = Some True, b_electiveSelections = Some es\<rparr>"

text \<open>
  A second-year class \<open>c2\<close> of department \<open>d1\<close> with student \<open>s3\<close>, and an active
  offered subject of that department and year whose type is \<open>pe\<close>.
\<close>

definition ex_P :: subject where
  "ex_P = \<lparr>subj_id = ''P'', subj_name = Some ''Compiler Design'', subj_code = Some ''CS7'',
           subj_type = Some ''pe'', subj_class_id = None\<rparr>"

definition ex_s3 :: student where
  "ex_s3 = \<lparr>s_id = ''s3'', s_roll_no = 7, s_name = ''Meera'', s_attendance_percent = Some 80,
            s_class_id = Some ''c2'', s_batch_id = None, s_defaulter = False\<rparr>"

definition ex_year2 :: store where
  "ex_year2 =
     \<lparr>students = [ex_s3], subjects = [ex_P],
      classes = [\<lparr>cls_id = ''c2'', cls_year = 2, cls_department_id = Some ''d1''\<rparr>],
      faculty_subjects = [], student_subject_selection = [],
      department_offered_subjects =
        [\<lparr>os_subject_id = ''P'', os_department_id = Some ''d1'', os_year = 2, os_semester = 3,
          os_faculty_ids = Some [''f1''], os_is_active = True\<rparr>],
      student_submissions = [], submission_types = [],
      users = [\<lparr>u_id = ''f1'', u_name = ''Dr. Rao''\<rparr>]\<rparr>"

text \<open>
  Faculty \<open>f1\<close> teaches the theory subject \<open>A\<close> to the whole class \<open>c1\<close>, the
  \<open>faculty_subjects\<close> row that \<open>POST /subjects/assign\<close> writes for a theory subject. In
  the second store student \<open>s2\<close> of that class has also selected \<open>A\<close> with \<open>f1\<close> as
  the open elective.
\<close>

definition ex_assigned :: store where
  "ex_assigned =
     ex_db\<lparr>faculty_subjects :=
             [\<lparr>fs_faculty_id = ''f1'', fs_subject_id = Some ''A'', fs_class_id = Some ''c1'',
               fs_batch_id = None\<rparr>]\<rparr>"

definition ex_both_ways :: store where
  "ex_both_ways =
     ex_assigned\<lparr>student_subject_selection :=
             [(new_selection ''s2'')\<lparr>oe_id := Some ''A'', oe_faculty_id := Some ''f1''\<rparr>]\<rparr>"
section \<open>Per-subject completion in the class teacher's student list\<close>

lemma find_unique_row:
  assumes "\<And>x y. x \<in> set xs \<Longrightarrow> y \<in> set xs \<Longrightarrow> P x \<Longrightarrow> P y \<Longrightarrow> x = y"
  shows "(case find P xs of None \<Rightarrow> False | Some r \<Rightarrow> Q r) \<longleftrightarrow> (\<exists>x \<in> set xs. P x \<and> Q x)"
  using assms
proof (induction xs)
  case Nil
  then show ?case by simp
next
  case (Cons a xs)
  show ?case
  proof (cases "P a")
    case True
    have "\<And>x. x \<in> set xs \<Longrightarrow> P x \<Longrightarrow> x = a"
      using Cons.prems True by (meson list.set_intros)
    then show ?thesis using True by auto
  next
    case False
    have "(case find P xs of None \<Rightarrow> False | Some r \<Rightarrow> Q r) \<longleftrightarrow> (\<exists>x \<in> set xs. P x \<and> Q x)"
      by (rule Cons.IH) (meson Cons.prems list.set_intros)
    then show ?thesis using False by simp
  qed
qed

lemma completedRow_find:
  assumes "distinct (map submission_key submissions)"
  shows "completedRow (find (hasTypeId ty)
           (filter (\<lambda>sub. sub_subject_id sub = j)
              (filter (\<lambda>sub. sub_student_id sub = i) submissions))) \<longleftrightarrow>
         (\<exists>sub \<in> set submissions. sub_student_id sub = i \<and> sub_subject_id sub = j \<and>
            hasTypeId ty sub \<and> sub_status sub = ''completed'')"
proof -
  have inj: "inj_on submission_key (set submissions)"
    using assms by (simp add: distinct_map)
  let ?xs = "filter (\<lambda>sub. sub_subject_id sub = j) (filter (\<lambda>sub. sub_student_id sub = i) submissions)"
  have uniq: "\<And>x y. x \<in> set ?xs \<Longrightarrow> y \<in> set ?xs \<Longrightarrow> hasTypeId ty x \<Longrightarrow> hasTypeId ty y \<Longrightarrow> x = y"
  proof -
    fix x y
    assume a: "x \<in> set ?xs" "y \<in> set ?xs" "hasTypeId ty x" "hasTypeId ty y"
    then have "sub_type_id x = sub_type_id y"
      by (cases ty) (auto simp: hasTypeId_def)
    with a have "submission_key x = submission_key y"
      by (simp add: submission_key_def)
    with a inj show "x = y"
      by (auto dest: inj_onD)
  qed
  have "completedRow (find (hasTypeId ty) ?xs) \<longleftrightarrow>
        (\<exists>x \<in> set ?xs. hasTypeId ty x \<and> sub_status x = ''completed'')"
    unfolding completedRow_def by (rule find_unique_row) (rule uniq)
  then show ?thesis by auto
qed

text \<open>
  Claim C1. The store holds at most one submission row per student, subject and
  submission type. Then, for every student and subject of the class teacher's list, a
  practical subject counts as complete exactly when a completed TA row of the student
  exists for it, whatever CIE rows there are; a subject of any other type counts as
  complete exactly when a completed TA row and a completed CIE row both exist.
\<close>

theorem subject_completion_rule:
  assumes "distinct (map submission_key submissions)"
  shows "subjectComplete submissionTypes submissions s subject \<longleftrightarrow>
     (if subj_type subject = Some ''practical''
      then completed_row_exists submissionTypes submissions s subject ''TA''
      else completed_row_exists submissionTypes submissions s subject ''TA'' \<and>
           completed_row_exists submissionTypes submissions s subject ''CIE'')"
  unfolding subjectComplete_def isSubjectComplete_def Let_def completed_row_exists_def
    completedRow_find [OF assms]
  by simp

theorem subject_completion_rule_witness:
  "distinct (map submission_key ex_submissions) \<and>
   subjectComplete ex_types ex_submissions ex_s2 ex_B \<and>
   \<not> completed_row_exists ex_types ex_submissions ex_s2 ex_B ''CIE'' \<and>
   \<not> subjectComplete ex_types ex_submissions ex_s2 ex_A"
proof -
  have d: "distinct (map submission_key ex_submissions)"
    by (simp add: ex_submissions_def submission_key_def)
  have ta: "completed_row_exists ex_types ex_submissions ex_s2 ex_B ''TA''"
    by (simp add: completed_row_exists_def ex_submissions_def ex_types_def ex_s2_def ex_B_def
        hasTypeId_def findType_def)
  have cie_B: "\<not> completed_row_exists ex_types ex_submissions ex_s2 ex_B ''CIE''"
    by (simp add: completed_row_exists_def ex_submissions_def ex_types_def ex_s2_def ex_B_def
        hasTypeId_def findType_def)
  have cie_A: "\<not> completed_row_exists ex_types ex_submissions ex_s2 ex_A ''CIE''"
    by (simp add: completed_row_exists_def ex_submissions_def ex_types_def ex_s2_def ex_A_def
        hasTypeId_def findType_def)
  have B: "subj_type ex_B = Some ''practical''" and A: "subj_type ex_A \<noteq> Some ''practical''"
    by (simp_all add: ex_A_def ex_B_def)
  show ?thesis
    using d ta cie_A cie_B A B
      subject_completion_rule [OF d, of ex_types ex_s2 ex_B]
      subject_completion_rule [OF d, of ex_types ex_s2 ex_A]
    by simp
qed

section \<open>\<open>Math.round((c / t) * 100)\<close> is a nearest integer\<close>

text \<open>
  Each of the two binary64 operations is off by at most one part in \<open>2 ^ 53\<close> of its
  exact result, so for \<open>c \<le> t < 2 ^ 40\<close> the product differs from \<open>100 * c / t\<close> by
  less than the distance from any non-integer multiple of \<open>1 / (2 * t)\<close> to the next
  integer, and \<open>Math.round\<close> returns an integer within one half of \<open>100 * c / t\<close>.
\<close>

lemma bits_bounds: "0 < n \<Longrightarrow> 2 ^ (bits n - 1) \<le> n \<and> n < 2 ^ bits n"
proof (induction n rule: bits.induct)
  case (1 n)
  show ?case
  proof (cases "n div 2 = 0")
    case True
    with 1 have "n = 1" by (simp add: div_eq_0_iff) 
    then show ?thesis by (simp add: bits.simps)
  next
    case False
    with 1 have IH: "2 ^ (bits (n div 2) - 1) \<le> n div 2" "n div 2 < 2 ^ bits (n div 2)"
      by auto
    have b: "bits n = Suc (bits (n div 2))" using 1 by (simp add: bits.simps)
    have pos: "0 < bits (n div 2)" using False by (simp add: bits.simps)
    then obtain j where j: "bits (n div 2) = Suc j" by (cases "bits (n div 2)") auto
    from IH show ?thesis unfolding b j by auto
  qed
qed


lemma powi_nat_cases:
  "(2::real) powi i = (if 0 \<le> i then 2 ^ nat i else inverse (2 ^ nat (- i)))"
  by (simp add: power_int_def power_one_over inverse_eq_divide)

lemma round53_error:
  assumes a: "0 < a" and b: "0 < b"
  shows "\<bar>val (round53 a b k) - real a / real b * 2 powi k\<bar>
           \<le> real a / real b * 2 powi k / 2 ^ 53"
proof -
  define e0 where "e0 = int (bits a) - int (bits b)"
  define C where "C = (if 0 \<le> e0 then b * 2 ^ nat e0 \<le> a else b \<le> a * 2 ^ nat (- e0))"
  define e where "e = (if C then e0 else e0 - 1)"
  define num where "num = a * 2 ^ nat (52 - e)"
  define den where "den = b * 2 ^ nat (e - 52)"
  define q where "q = num div den"
  define r where "r = num mod den"
  define m where "m = (if 2 * r < den then q
                 else if den < 2 * r then q + 1
                 else if even q then q else q + 1)"
  have res: "round53 a b k = (m, e - 52 + k)"
    using a unfolding round53_def Let_def m_def r_def q_def den_def num_def e_def C_def e0_def
    by simp
  have C_iff: "C \<longleftrightarrow> real b * 2 powi e0 \<le> real a"
  proof (cases "0 \<le> e0")
    case True
    then have "C \<longleftrightarrow> real (b * 2 ^ nat e0) \<le> real a"
      unfolding C_def by (simp only: if_True of_nat_le_iff)
    then show ?thesis using True by (simp add: powi_nat_cases)
  next
    case False
    then have "C \<longleftrightarrow> real b \<le> real (a * 2 ^ nat (- e0))"
      unfolding C_def by (simp only: if_False of_nat_le_iff)
    then show ?thesis using False by (simp add: powi_nat_cases field_simps)
  qed
  have e_low: "real b * 2 powi e \<le> real a"
  proof (cases C)
    case True
    then show ?thesis using C_iff by (simp add: e_def)
  next
    case False
    have ba: "0 < bits a" using a by (simp add: bits.simps)
    have "real b \<le> 2 ^ bits b"
      using bits_bounds [OF b] by (metis less_imp_le of_nat_le_iff of_nat_numeral of_nat_power)
    then have "real b \<le> 2 powi (int (bits b))" by (simp add: power_int_of_nat)
    then have "real b * 2 powi (e0 - 1) \<le> 2 powi (int (bits b)) * 2 powi (e0 - 1)"
      by (intro mult_right_mono) simp_all
    also have "\<dots> = 2 powi (int (bits b) + (e0 - 1))"
      by (simp add: power_int_add)
    also have "int (bits b) + (e0 - 1) = int (bits a - 1)"
      using ba by (simp add: e0_def)
    also have "(2::real) powi (int (bits a - 1)) = 2 ^ (bits a - 1)"
      by (simp add: power_int_of_nat)
    also have "\<dots> \<le> real a"
      using bits_bounds [OF a] by (metis of_nat_le_iff of_nat_numeral of_nat_power)
    finally show ?thesis using False by (simp add: e_def)
  qed
  have den_pos: "0 < den" using b by (simp add: den_def)
  have ratio: "real num / real den = real a / real b * 2 powi (52 - e)"
  proof (cases "e \<le> 52")
    case True
    then have "nat (e - 52) = 0" by simp
    then show ?thesis using True by (simp add: num_def den_def powi_nat_cases)
  next
    case False
    then have "nat (52 - e) = 0" "- (52 - e) = e - 52" by simp_all
    then show ?thesis using False by (simp add: num_def den_def powi_nat_cases field_simps)
  qed
  have big: "2 ^ 52 \<le> real num / real den"
  proof -
    have "real a / real b * 2 powi (52 - e) \<ge> 2 powi e * 2 powi (52 - e)"
      using e_low b by (intro mult_right_mono) (simp_all add: field_simps)
    moreover have "(2::real) powi e * 2 powi (52 - e) = 2 powi 52"
      by (simp flip: power_int_add)
    ultimately show ?thesis by (simp add: ratio)
  qed
  have split: "num = q * den + r" and rlt: "r < den"
    using den_pos by (simp_all add: q_def r_def)
  have frac: "real num / real den = real q + real r / real den"
    using den_pos by (simp add: split field_simps)
  have rfrac: "real r / real den < 1" using rlt den_pos by simp
  have near: "\<bar>real m - real num / real den\<bar> \<le> 1 / 2"
  proof -
    consider "2 * r < den" | "den < 2 * r" | "2 * r = den" by linarith
    then show ?thesis
    proof cases
      case 1
      then have "m = q" by (simp add: m_def)
      moreover from 1 have "real (2 * r) < real den" by (simp only: of_nat_less_iff)
      then have "real r / real den < 1 / 2" using den_pos by (simp add: field_simps)
      ultimately show ?thesis by (simp add: frac)
    next
      case 2
      then have "m = q + 1" by (simp add: m_def)
      moreover from 2 have "real den < real (2 * r)" by (simp only: of_nat_less_iff)
      then have "1 / 2 < real r / real den" using den_pos by (simp add: field_simps)
      ultimately show ?thesis using rfrac by (simp add: frac)
    next
      case 3
      have mm: "m = q \<or> m = q + 1" using 3 by (simp add: m_def)
      have h: "real r / real den = 1 / 2"
      proof -
        from 3 have "real (2 * r) = real den" by (simp only:)
        then show ?thesis using den_pos by (simp add: field_simps)
      qed
      show ?thesis using mm unfolding frac h by auto
    qed
  qed
  define u where "u = (2::real) powi (e - 52 + k)"
  have u_pos: "0 < u" by (simp add: u_def)
  have x: "real a / real b * 2 powi k = real num / real den * u"
  proof -
    have "(2::real) powi (52 - e) * 2 powi (e - 52 + k) = 2 powi k"
      by (simp flip: power_int_add)
    then show ?thesis by (simp add: ratio u_def mult.assoc)
  qed
  have "val (round53 a b k) = real m * u"
    by (simp add: res val_def u_def)
  then have "val (round53 a b k) - real a / real b * 2 powi k = (real m - real num / real den) * u"
    unfolding x by (simp add: algebra_simps)
  then have "\<bar>val (round53 a b k) - real a / real b * 2 powi k\<bar> = \<bar>real m - real num / real den\<bar> * u"
    using u_pos by (simp add: abs_mult)
  also have "\<dots> \<le> 1 / 2 * u"
    using near u_pos by (intro mult_right_mono) simp_all
  also have "\<dots> \<le> (real num / real den / 2 ^ 53) * u"
    using big u_pos by (intro mult_right_mono) simp_all
  also have "\<dots> = real a / real b * 2 powi k / 2 ^ 53"
    unfolding x by simp
  finally show ?thesis .
qed


lemma Math_round_floor: "int (Math_round x) = \<lfloor>val x + 1 / 2\<rfloor>"
proof (cases "0 \<le> snd x")
  case True
  have "val x = real (fst x * 2 ^ nat (snd x))"
    using True by (simp add: val_def powi_nat_cases)
  then have "\<lfloor>val x + 1 / 2\<rfloor> = int (fst x * 2 ^ nat (snd x))"
    by (simp only:) linarith
  then show ?thesis using True by (simp add: Math_round_def)
next
  case False
  define n where "n = nat (- snd x)"
  have n: "0 < n" using False by (simp add: n_def)
  then obtain j where j: "n = Suc j" by (cases n) auto
  have "val x + 1 / 2 = real (fst x) / 2 ^ n + 1 / 2"
    using False by (simp add: val_def powi_nat_cases n_def field_simps)
  also have "\<dots> = real (fst x + 2 ^ (n - 1)) / real (2 ^ n)"
    by (simp add: j field_simps)
  finally have "\<lfloor>val x + 1 / 2\<rfloor> = int ((fst x + 2 ^ (n - 1)) div 2 ^ n)"
    by (simp only: floor_divide_of_nat_eq)
  then show ?thesis using False by (simp add: Math_round_def n_def)
qed

lemma abs_diff_triangle: "\<bar>a - c\<bar> \<le> \<bar>a - b\<bar> + \<bar>b - c\<bar>" for a b c :: real
  by linarith

lemma js_percent_zero: "js_percent 0 t = 0"
  by (simp add: js_percent_def js_div_def js_times_def round53_def Math_round_def)

lemma js_percent_close:
  assumes c: "0 < c" and ct: "c \<le> t"
  shows "\<bar>val (js_times (js_div c t) 100) - 100 * real c / real t\<bar> \<le> 300 / 2 ^ 53"
proof -
  have t: "0 < t" using c ct by simp
  define d where "d = js_div c t"
  define x where "x = real c / real t"
  have x01: "0 < x" "x \<le> 1" using c ct t by (simp_all add: x_def)
  have e1: "\<bar>val d - x\<bar> \<le> x / 2 ^ 53"
    using round53_error [OF c t, of 0] by (simp add: d_def js_div_def x_def)
  have xs: "x / 2 ^ 53 < x" using x01 by simp
  with e1 have vpos: "0 < val d" by linarith
  then have m: "0 < fst d * 100"
    by (cases "fst d = 0") (simp_all add: val_def)
  have sc: "real (fst d * 100) / real 1 * 2 powi (snd d) = 100 * val d"
    by (simp add: val_def)
  have e2: "\<bar>val (js_times d 100) - 100 * val d\<bar> \<le> 100 * val d / 2 ^ 53"
    using round53_error [OF m, of 1 "snd d"] unfolding sc by (simp add: js_times_def)
  have v2: "val d \<le> 2" using e1 x01 xs by linarith
  have sc2: "\<bar>100 * val d - 100 * x\<bar> = 100 * \<bar>val d - x\<bar>"
    by (auto simp: abs_if)
  have "\<bar>val (js_times d 100) - 100 * x\<bar> \<le> \<bar>val (js_times d 100) - 100 * val d\<bar> + \<bar>100 * val d - 100 * x\<bar>"
    by (rule abs_diff_triangle)
  also have "\<dots> = \<bar>val (js_times d 100) - 100 * val d\<bar> + 100 * \<bar>val d - x\<bar>"
    by (simp only: sc2)
  also have "\<dots> \<le> 100 * val d / 2 ^ 53 + 100 * (x / 2 ^ 53)"
    by (intro add_mono mult_left_mono e1 e2) simp
  also have "\<dots> \<le> 100 * 2 / 2 ^ 53 + 100 * (1 / 2 ^ 53)"
    using v2 x01 by (intro add_mono mult_left_mono divide_right_mono) simp_all
  finally show ?thesis by (simp add: d_def x_def)
qed

lemma js_percent_nearest:
  assumes ct: "c \<le> t" and t: "0 < t" and small: "t < 2 ^ 40"
  shows "200 * c \<le> 2 * t * js_percent c t + t \<and> 2 * t * js_percent c t \<le> 200 * c + t"
proof (cases "c = 0")
  case True
  then show ?thesis by (simp add: js_percent_zero)
next
  case False
  then have c: "0 < c" by simp
  define v where "v = val (js_times (js_div c t) 100)"
  define p where "p = js_percent c t"
  have close: "\<bar>v - 100 * real c / real t\<bar> \<le> 300 / 2 ^ 53"
    unfolding v_def by (rule js_percent_close [OF c ct])
  have fl: "int p = \<lfloor>v + 1 / 2\<rfloor>"
    by (simp add: p_def js_percent_def v_def Math_round_floor)
  have up: "real p \<le> v + 1 / 2" and lo: "v + 1 / 2 < real p + 1"
  proof -
    have "real_of_int (int p) \<le> v + 1 / 2" unfolding fl by (rule of_int_floor_le)
    then show "real p \<le> v + 1 / 2" by simp
    have "v + 1 / 2 < real_of_int (int p) + 1" unfolding fl by linarith
    then show "v + 1 / 2 < real p + 1" by simp
  qed
  have "real t < real (2 ^ 40)" using small by (simp only: of_nat_less_iff)
  then have tr: "0 < real t" "real t < 2 ^ 40"
    using t by simp_all
  have slack: "2 * real t * (300 / 2 ^ 53) < 1"
  proof -
    have "2 * real t * (300 / 2 ^ 53) < 2 * 2 ^ 40 * (300 / 2 ^ 53)"
      using tr by simp
    also have "\<dots> < (1::real)" by simp
    finally show ?thesis .
  qed
  have q: "2 * real t * (100 * real c / real t) = 200 * real c"
    using tr by simp
  have a1: "2 * real t * real p \<le> 2 * real t * (100 * real c / real t + 300 / 2 ^ 53 + 1 / 2)"
    using up close tr by (intro mult_left_mono) linarith+
  have a2: "2 * real t * (100 * real c / real t - 300 / 2 ^ 53 - 1 / 2) < 2 * real t * real p"
    using lo close tr by (intro mult_strict_left_mono) linarith+
  have b1: "2 * real t * real p < 200 * real c + real t + 1"
    using a1 slack q by (simp add: algebra_simps)
  have b2: "200 * real c < 2 * real t * real p + real t + 1"
    using a2 slack q by (simp add: algebra_simps)
  have "real (2 * t * p) < real (200 * c + t + 1)" using b1 by simp
  then have u1: "2 * t * p < 200 * c + t + 1" by (simp only: of_nat_less_iff)
  have "real (200 * c) < real (2 * t * p + t + 1)" using b2 by simp
  then have u2: "200 * c < 2 * t * p + t + 1" by (simp only: of_nat_less_iff)
  from u1 u2 show ?thesis unfolding p_def by simp
qed

lemma exact_percent_near:
  assumes t: "0 < t" and lo: "200 * c \<le> 2 * t * p + t" and hi: "2 * t * p \<le> 200 * c + t"
  shows "\<bar>of_nat p - exact_percent c t\<bar> \<le> 1 / 2"
    and "frac (exact_percent c t) \<noteq> 1 / 2 \<Longrightarrow> round (exact_percent c t) = int p"
proof -
  define q where "q = exact_percent c t"
  define T :: rat where "T = of_nat t"
  define P :: rat where "P = of_nat p"
  have T: "0 < T" using t by (simp add: T_def)
  have T2: "0 < 2 * T" using T by simp
  have tq: "200 * of_nat c = 2 * T * q"
    using T by (simp add: q_def exact_percent_def T_def)
  have "(of_nat (200 * c) :: rat) \<le> of_nat (2 * t * p + t)"
    using lo by (simp only: of_nat_le_iff)
  then have "200 * of_nat c \<le> 2 * T * P + T"
    by (simp add: T_def P_def)
  then have "2 * T * q \<le> 2 * T * P + T"
    by (simp only: tq)
  then have "2 * T * (q - P) \<le> 2 * T * (1 / 2)"
    by (simp add: algebra_simps)
  then have lo': "q - P \<le> 1 / 2"
    by (simp only: mult_le_cancel_left_pos [OF T2])
  have "(of_nat (2 * t * p) :: rat) \<le> of_nat (200 * c + t)"
    using hi by (simp only: of_nat_le_iff)
  then have "2 * T * P \<le> 200 * of_nat c + T"
    by (simp add: T_def P_def)
  then have "2 * T * P \<le> 2 * T * q + T"
    by (simp only: tq)
  then have "2 * T * (P - q) \<le> 2 * T * (1 / 2)"
    by (simp add: algebra_simps)
  then have hi': "P - q \<le> 1 / 2"
    by (simp only: mult_le_cancel_left_pos [OF T2])
  from lo' hi' show "\<bar>of_nat p - exact_percent c t\<bar> \<le> 1 / 2"
    unfolding q_def [symmetric] P_def [symmetric] by linarith
  show "round (exact_percent c t) = int p" if nt: "frac (exact_percent c t) \<noteq> 1 / 2"
  proof -
    have "q - P \<noteq> 1 / 2"
    proof
      assume "q - P = 1 / 2"
      then have "q - 1 / 2 = of_nat p" by (simp add: P_def algebra_simps)
      then have "q - 1 / 2 \<in> \<int>" by (simp only: Ints_of_nat)
      then have "frac q = 1 / 2" by (subst frac_unique_iff) simp
      with nt show False by (simp add: q_def)
    qed
    with lo' have "q - P < 1 / 2" by simp
    with hi' have "of_int (int p) \<le> q + 1 / 2" "q + 1 / 2 < of_int (int p) + 1"
      by (simp_all add: P_def)
    then have "\<lfloor>q + 1 / 2\<rfloor> = int p" by (simp only: floor_unique)
    then show ?thesis by (simp add: round_def q_def)
  qed
qed

text \<open>
  The quotient is rounded before it is multiplied: 23 of 40 gives 57, where the exact
  value 57.5 would round to 58; 1 of 8 is exact and gives 13.
\<close>

lemma js_percent_rounds_quotient: "js_percent 23 40 = 57" "js_percent 1 8 = 13"
  by (simp_all add: js_percent_def Math_round_def js_times_def js_div_def round53_def bits.simps
      Let_def)

section \<open>The dashboard percentage\<close>

lemma fold_typeMap:
  "distinct (map st_id ts) \<Longrightarrow>
   (fold setType ts m i = Some n) \<longleftrightarrow>
   ((\<exists>t \<in> set ts. st_id t = i \<and> st_name t = n) \<or> (i \<notin> st_id ` set ts \<and> m i = Some n))"
proof (induction ts arbitrary: m)
  case Nil
  then show ?case by simp
next
  case (Cons a ts)
  from Cons.prems have d: "distinct (map st_id ts)" and a: "st_id a \<notin> st_id ` set ts"
    by auto
  have IH: "(fold setType ts (setType a m) i = Some n) \<longleftrightarrow>
     ((\<exists>t \<in> set ts. st_id t = i \<and> st_name t = n) \<or>
      (i \<notin> st_id ` set ts \<and> setType a m i = Some n))"
    by (rule Cons.IH [OF d])
  have v: "setType a m i = (if i = st_id a then Some (st_name a) else m i)"
    by (simp add: setType_def)
  show ?case
    using a by (auto simp: IH v)
qed

lemma typeMap_Some:
  "distinct (map st_id ts) \<Longrightarrow>
   typeMap ts i = Some n \<longleftrightarrow> (\<exists>t \<in> set ts. st_id t = i \<and> st_name t = n)"
  unfolding typeMap_def by (simp add: fold_typeMap)

lemma fold_setStatus:
  assumes "\<And>x y. x \<in> set xs \<Longrightarrow> y \<in> set xs \<Longrightarrow> tm (sub_type_id x) = Some k \<Longrightarrow>
             tm (sub_type_id y) = Some k \<Longrightarrow> x = y"
    and "k \<noteq> []"
  shows "(fold (setStatus tm) xs m k = Some c) \<longleftrightarrow>
         ((\<exists>x \<in> set xs. tm (sub_type_id x) = Some k \<and> sub_status x = c) \<or>
          ((\<forall>x \<in> set xs. tm (sub_type_id x) \<noteq> Some k) \<and> m k = Some c))"
  using assms(1)
proof (induction xs arbitrary: m)
  case Nil
  then show ?case by simp
next
  case (Cons a xs)
  have IH: "(fold (setStatus tm) xs (setStatus tm a m) k = Some c) \<longleftrightarrow>
         ((\<exists>x \<in> set xs. tm (sub_type_id x) = Some k \<and> sub_status x = c) \<or>
          ((\<forall>x \<in> set xs. tm (sub_type_id x) \<noteq> Some k) \<and> setStatus tm a m k = Some c))"
    by (rule Cons.IH) (meson Cons.prems list.set_intros)
  show ?case
  proof (cases "tm (sub_type_id a) = Some k")
    case True
    have same: "\<And>x. x \<in> set xs \<Longrightarrow> tm (sub_type_id x) = Some k \<Longrightarrow> x = a"
      using Cons.prems True by (meson list.set_intros)
    have "setStatus tm a m k = Some (sub_status a)"
      using True assms(2) by (simp add: setStatus_def)
    then show ?thesis
      using True same by (auto simp: IH)
  next
    case False
    then have "setStatus tm a m k = m k"
      by (auto simp: setStatus_def split: option.splits)
    then show ?thesis
      using False by (simp add: IH)
  qed
qed

lemma fold_plus_sum_list:
  "fold (\<lambda>x (n::nat). n + f x) xs a = a + sum_list (map f xs)"
  by (induction xs arbitrary: a) auto

lemma dashboard_slot:
  assumes keys: "distinct (map submission_key (student_submissions db))"
    and ids: "distinct (map st_id (submission_types db))"
    and names: "distinct (map st_name (submission_types db))"
    and k: "k \<noteq> []" "k \<in> {''CIE'', ''TA'', ''Defaulter work''}"
  shows "submissionMap (typeMap (submission_types db))
           (filter (\<lambda>s. sub_subject_id s = subj_id subject)
              (filter (\<lambda>sub. sub_student_id sub = s_id st) (student_submissions db))) k
           = Some ''completed'' \<longleftrightarrow> completed_of_type db st (subj_id subject) k"
proof -
  let ?tm = "typeMap (submission_types db)"
  let ?xs = "filter (\<lambda>s. sub_subject_id s = subj_id subject)
              (filter (\<lambda>sub. sub_student_id sub = s_id st) (student_submissions db))"
  have inj_key: "inj_on submission_key (set (student_submissions db))"
    using keys by (simp add: distinct_map)
  have inj_name: "inj_on st_name (set (submission_types db))"
    using names by (simp add: distinct_map)
  have uniq: "\<And>x y. x \<in> set ?xs \<Longrightarrow> y \<in> set ?xs \<Longrightarrow> ?tm (sub_type_id x) = Some k \<Longrightarrow>
             ?tm (sub_type_id y) = Some k \<Longrightarrow> x = y"
  proof -
    fix x y
    assume a: "x \<in> set ?xs" "y \<in> set ?xs" "?tm (sub_type_id x) = Some k" "?tm (sub_type_id y) = Some k"
    from a(3) obtain t1 where t1: "t1 \<in> set (submission_types db)" "st_id t1 = sub_type_id x" "st_name t1 = k"
      using typeMap_Some [OF ids] by blast
    from a(4) obtain t2 where t2: "t2 \<in> set (submission_types db)" "st_id t2 = sub_type_id y" "st_name t2 = k"
      using typeMap_Some [OF ids] by blast
    from t1 t2 inj_name have "t1 = t2"
      by (auto dest: inj_onD)
    with t1 t2 have "sub_type_id x = sub_type_id y" by simp
    with a(1,2) have "submission_key x = submission_key y"
      by (simp add: submission_key_def)
    with a(1,2) inj_key show "x = y"
      by (auto dest: inj_onD)
  qed
  have init: "[''CIE'' \<mapsto> ''pending'', ''TA'' \<mapsto> ''pending'', ''Defaulter work'' \<mapsto> ''pending''] k
                \<noteq> Some ''completed''"
    using k(2) by auto
  have "submissionMap ?tm ?xs k = Some ''completed'' \<longleftrightarrow>
        (\<exists>x \<in> set ?xs. ?tm (sub_type_id x) = Some k \<and> sub_status x = ''completed'')"
    unfolding submissionMap_def
    using fold_setStatus [of ?xs ?tm k, OF uniq k(1)] init by blast
  also have "\<dots> \<longleftrightarrow> completed_of_type db st (subj_id subject) k"
    unfolding completed_of_type_def by (auto simp: typeMap_Some [OF ids])
  finally show ?thesis .
qed

lemma subjectCompleted_claimed:
  assumes keys: "distinct (map submission_key (student_submissions db))"
    and ids: "distinct (map st_id (submission_types db))"
    and names: "distinct (map st_name (submission_types db))"
  shows "completedSubmissions (s_defaulter st)
           (subjectsWithSubmissions (submission_types db)
              (filter (\<lambda>sub. sub_student_id sub = s_id st) (student_submissions db)) subjs)
         = claimed_completed db st (map subj_id subjs)"
proof -
  note slot = dashboard_slot [OF keys ids names]
  show ?thesis
    unfolding completedSubmissions_def fold_plus_sum_list claimed_completed_def
      subjectsWithSubmissions_def
    by (cases "s_defaulter st")
       (simp_all add: comp_def subjectCompleted_def Let_def slot add.commute del: filter_filter)
qed

lemma js_percent_3_6: "js_percent 3 6 = 50"
  by (simp add: js_percent_def Math_round_def js_times_def js_div_def round53_def bits.simps Let_def)

lemma shown_ids: "map ds_id (subjectsWithSubmissions ts subs subjs) = map subj_id subjs"
  by (simp add: subjectsWithSubmissions_def Let_def comp_def)

lemma claimed_completed_le:
  "claimed_completed db st ids \<le> length ids * (if s_defaulter st then 3 else 2)"
  unfolding claimed_completed_def by (induction ids) auto

lemma dashboard_percentage_js:
  assumes "distinct (map submission_key (student_submissions db))"
    and "distinct (map st_id (submission_types db))"
    and "distinct (map st_name (submission_types db))"
  shows "dashboard_percentage db st subjs =
           (if subjs = [] then 0
            else js_percent (claimed_completed db st (map subj_id subjs))
                   (length subjs * (if s_defaulter st then 3 else 2)))"
proof -
  have len: "length (subjectsWithSubmissions ts subs subjs) = length subjs" for ts subs
    by (simp add: subjectsWithSubmissions_def)
  show ?thesis
    unfolding dashboard_percentage_def Let_def len subjectCompleted_claimed [OF assms]
    by simp
qed

text \<open>
  When the route answers with the dashboard, the percentage is that of the subjects it
  resolved for the student of the token, and the entries shown are those subjects.
\<close>

lemma dashboard_Inr:
  assumes "dashboard db user = Inr d"
  shows "\<exists>subjs. dd_submissionPercentage d = dashboard_percentage db (dd_student d) subjs \<and>
                 map ds_id (dd_subjects d) = map subj_id subjs \<and>
                 s_id (dd_student d) = tok_id user"
proof -
  have found: "s_id student = i"
    if "maybeSingle (filter (\<lambda>s. s_id s = i) rows) = Inr (Some student)" for student i rows
  proof -
    from that have "filter (\<lambda>s. s_id s = i) rows = [student]"
      by (auto simp: maybeSingle_def split: list.splits)
    then have "student \<in> set (filter (\<lambda>s. s_id s = i) rows)" by simp
    then show ?thesis by simp
  qed
  from assms obtain student studentClassId studentSelections
    where row: "maybeSingle (filter (\<lambda>s. s_id s = tok_id user) (students db)) = Inr (Some student)"
      and d: "d = \<lparr>dd_student = student,
                    dd_submissionPercentage =
                      dashboard_percentage db student
                        (dashboard_subjects db studentClassId (tok_batch_id user) studentSelections),
                    dd_subjects =
                      subjectsWithSubmissions (submission_types db)
                        (filter (\<lambda>sub. sub_student_id sub = tok_id user) (student_submissions db))
                        (dashboard_subjects db studentClassId (tok_batch_id user)
                           studentSelections)\<rparr>"
    unfolding dashboard_def Let_def
    by (auto split: if_splits sum.splits option.splits)
  show ?thesis
    by (rule exI [of _ "dashboard_subjects db studentClassId (tok_batch_id user) studentSelections"])
       (simp add: d shown_ids found [OF row])
qed

text \<open>
  The subjects shown on the example stores: the practical subject \<open>B\<close> is shown to
  batch \<open>b1\<close> only when a \<open>faculty_subjects\<close> row assigns it to that batch, and a
  selected subject is pushed once, with the student's class, unless it is shown already.
\<close>

lemma dashboard_subjects_examples:
  "class_subjects ex_two_batches ''c1'' (Some ''b1'') = [ex_A, ex_B]"
  "class_subjects ex_db ''c1'' (Some ''b1'') = [ex_A]"
  "dashboard_subjects (ex_db\<lparr>subjects := [ex_A, ex_B, ex_P]\<rparr>) ''c1'' (Some ''b1'')
     (Some ((new_selection ''s1'')\<lparr>mdm_id := Some ''A'', pe_id := Some ''P''\<rparr>)) =
   [ex_A, ex_P\<lparr>subj_class_id := Some ''c1''\<rparr>]"
  by (simp_all add: dashboard_subjects_def class_subjects_def electiveSubjectIds_def
      push_elective_def new_selection_def Let_def ex_two_batches_def ex_db_def ex_A_def ex_B_def
      ex_P_def)

text \<open>
  Claim C2, corrected. The store holds at most one submission row per student, subject
  and submission type, and the submission types have distinct ids and distinct names.
  When the dashboard route answers a student with \<open>n\<close> subjects shown (a JavaScript
  array, so \<open>n < 2 ^ 32\<close>), with \<open>k = 3\<close> for a defaulter and \<open>k = 2\<close> otherwise and
  \<open>completed\<close> counting per subject a completed TA row, a completed CIE row and, for a
  defaulter only, a completed Defaulter work row: the percentage is 0 when \<open>n = 0\<close>;
  otherwise \<open>completed \<le> n * k\<close>, the percentage is
  \<open>Math.round((completed / (n * k)) * 100)\<close> as binary64 arithmetic evaluates it, it lies
  within one half of \<open>completed / (n * k) * 100\<close>, and it equals
  \<open>round(completed / (n * k) * 100)\<close> whenever that value is not exactly half-way between
  two integers. In particular a defaulter with two subjects and three such completions
  gets exactly 50.
\<close>

theorem dashboard_percentage_formula:
  assumes "distinct (map submission_key (student_submissions db))"
    and "distinct (map st_id (submission_types db))"
    and "distinct (map st_name (submission_types db))"
    and "dashboard db user = Inr d"
    and "length (dd_subjects d) < 2 ^ 32"
  shows "let st = dd_student d; n = length (dd_subjects d);
             k = (if s_defaulter st then 3 else 2);
             c = claimed_completed db st (map ds_id (dd_subjects d));
             p = dd_submissionPercentage d
         in (n = 0 \<longrightarrow> p = 0) \<and>
            (0 < n \<longrightarrow>
               c \<le> n * k \<and> p = js_percent c (n * k) \<and>
               \<bar>of_nat p - exact_percent c (n * k)\<bar> \<le> 1 / 2 \<and>
               (frac (exact_percent c (n * k)) \<noteq> 1 / 2 \<longrightarrow>
                  int p = claimed_percentage db st (map ds_id (dd_subjects d)))) \<and>
            (s_defaulter st \<and> n = 2 \<and> c = 3 \<longrightarrow> p = 50)"
proof -
  define st where "st = dd_student d"
  define n where "n = length (dd_subjects d)"
  define k :: nat where "k = (if s_defaulter st then 3 else 2)"
  define c where "c = claimed_completed db st (map ds_id (dd_subjects d))"
  define p where "p = dd_submissionPercentage d"
  from dashboard_Inr [OF assms(4)] obtain subjs
    where pd: "p = dashboard_percentage db st subjs"
      and shown: "map ds_id (dd_subjects d) = map subj_id subjs"
    unfolding p_def st_def by blast
  have len: "length subjs = n"
    using shown unfolding n_def by (metis length_map)
  have pj: "p = (if subjs = [] then 0 else js_percent c (n * k))"
    unfolding pd dashboard_percentage_js [OF assms(1-3)] c_def shown len k_def by simp
  have zero: "n = 0 \<longrightarrow> p = 0"
    using pj len by auto
  have ck: "c \<le> n * k"
    using claimed_completed_le [of db st "map ds_id (dd_subjects d)"]
    unfolding c_def n_def k_def by simp
  have k23: "0 < k" "k \<le> 3"
    by (simp_all add: k_def)
  have pos: "0 < n \<longrightarrow>
               c \<le> n * k \<and> p = js_percent c (n * k) \<and>
               \<bar>of_nat p - exact_percent c (n * k)\<bar> \<le> 1 / 2 \<and>
               (frac (exact_percent c (n * k)) \<noteq> 1 / 2 \<longrightarrow>
                  int p = claimed_percentage db st (map ds_id (dd_subjects d)))"
  proof
    assume n: "0 < n"
    then have ne: "subjs \<noteq> []" using len by auto
    have pe: "p = js_percent c (n * k)" using pj ne by simp
    have t: "0 < n * k" using n k23 by simp
    have "n * k \<le> n * 3" using k23 by simp
    also have "\<dots> < 2 ^ 32 * 3" using assms(5) unfolding n_def by simp
    also have "\<dots> < (2::nat) ^ 40" by simp
    finally have small: "n * k < 2 ^ 40" .
    from js_percent_nearest [OF ck t small]
    have lo: "200 * c \<le> 2 * (n * k) * p + n * k" and hi: "2 * (n * k) * p \<le> 200 * c + n * k"
      unfolding pe by simp_all
    have near: "\<bar>of_nat p - exact_percent c (n * k)\<bar> \<le> 1 / 2"
      by (rule exact_percent_near(1) [OF t lo hi])
    have cp: "claimed_percentage db st (map ds_id (dd_subjects d)) = round (exact_percent c (n * k))"
      by (simp add: claimed_percentage_def Let_def c_def n_def k_def)
    have rnd: "frac (exact_percent c (n * k)) \<noteq> 1 / 2 \<longrightarrow>
                 int p = claimed_percentage db st (map ds_id (dd_subjects d))"
      unfolding cp using exact_percent_near(2) [OF t lo hi] by simp
    from ck pe near rnd show "c \<le> n * k \<and> p = js_percent c (n * k) \<and>
               \<bar>of_nat p - exact_percent c (n * k)\<bar> \<le> 1 / 2 \<and>
               (frac (exact_percent c (n * k)) \<noteq> 1 / 2 \<longrightarrow>
                  int p = claimed_percentage db st (map ds_id (dd_subjects d)))"
      by blast
  qed
  have fifty: "s_defaulter st \<and> n = 2 \<and> c = 3 \<longrightarrow> p = 50"
  proof
    assume a: "s_defaulter st \<and> n = 2 \<and> c = 3"
    then have "subjs \<noteq> []" using len by auto
    with a pj show "p = 50" by (simp add: k_def js_percent_3_6)
  qed
  from zero pos fifty show ?thesis
    unfolding Let_def st_def [symmetric] n_def [symmetric] c_def [symmetric] p_def [symmetric]
      k_def [symmetric]
    by blast
qed

lemma exact_percent_values:
  "round (exact_percent 23 40) = 58" "round (exact_percent 3 6) = 50"
  "frac (exact_percent 3 6) \<noteq> 1 / 2" "exact_percent 3 6 = 50"
  by code_simp+

theorem dashboard_percentage_formula_witness:
  "distinct (map submission_key (student_submissions ex_two_batches)) \<and>
   distinct (map st_id (submission_types ex_two_batches)) \<and>
   distinct (map st_name (submission_types ex_two_batches)) \<and>
   (\<exists>d. dashboard ex_two_batches ex_token_s1 = Inr d \<and> length (dd_subjects d) < 2 ^ 32 \<and>
        dd_student d = ex_s1 \<and> s_defaulter ex_s1 \<and>
        map ds_id (dd_subjects d) = [''A'', ''B''] \<and>
        claimed_completed ex_two_batches ex_s1 [''A'', ''B''] = 3 \<and>
        exact_percent 3 6 = 50 \<and>
        dd_submissionPercentage d = 50 \<and>
        claimed_percentage ex_two_batches ex_s1 [''A'', ''B''] = 50)"
proof -
  have d1: "distinct (map submission_key (student_submissions ex_two_batches))"
    by (simp add: ex_two_batches_def ex_db_def ex_submissions_def submission_key_def)
  have d2: "distinct (map st_id (submission_types ex_two_batches))"
    by (simp add: ex_two_batches_def ex_db_def ex_types_def)
  have d3: "distinct (map st_name (submission_types ex_two_batches))"
    by (simp add: ex_two_batches_def ex_db_def ex_types_def)
  have df: "s_defaulter ex_s1"
    by (simp add: ex_s1_def)
  have c: "claimed_completed ex_two_batches ex_s1 [''A'', ''B''] = 3"
    by (simp add: claimed_completed_def completed_of_type_def ex_two_batches_def ex_db_def
        ex_submissions_def ex_types_def ex_s1_def)
  have "\<exists>d. dashboard ex_two_batches ex_token_s1 = Inr d \<and> dd_student d = ex_s1 \<and>
            map ds_id (dd_subjects d) = [''A'', ''B'']"
    by (simp add: dashboard_def maybeSingle_def selection_of_def dashboard_subjects_def
        class_subjects_def electiveSubjectIds_def shown_ids Let_def
        ex_two_batches_def ex_db_def ex_token_s1_def ex_s1_def ex_s2_def ex_A_def ex_B_def)
  then obtain d where D: "dashboard ex_two_batches ex_token_s1 = Inr d \<and> dd_student d = ex_s1 \<and>
            map ds_id (dd_subjects d) = [''A'', ''B'']" ..
  then have route: "dashboard ex_two_batches ex_token_s1 = Inr d"
    and st: "dd_student d = ex_s1" and shown: "map ds_id (dd_subjects d) = [''A'', ''B'']"
    by (rule conjunct1, rule conjunct2 [THEN conjunct1], rule conjunct2 [THEN conjunct2])
  have n: "length (dd_subjects d) = 2"
    using shown by (metis length_map list.size(3,4) One_nat_def Suc_1 add.left_neutral plus_1_eq_Suc)
  then have len: "length (dd_subjects d) < 2 ^ 32"
    by simp
  have cp: "claimed_percentage ex_two_batches ex_s1 [''A'', ''B''] = 50"
    using c df by (simp add: claimed_percentage_def exact_percent_values)
  from dashboard_percentage_formula [OF d1 d2 d3 route len]
  have "dd_submissionPercentage d = 50"
    unfolding Let_def st shown n using df c by simp
  with d1 d2 d3 route len st df shown c cp show ?thesis
    by (auto simp: exact_percent_values)
qed

text \<open>
  Claim C2 as stated fails at a half-way value. Student \<open>s2\<close>, who is no
  defaulter, is shown twenty subjects and has 23 of the 40 submissions completed:
  \<open>23 / 40 * 100\<close> is 57.5 and rounds to 58, and the dashboard reports 57.
\<close>

theorem dashboard_half_way_counterexample:
  "distinct (map submission_key (student_submissions ex_twenty)) \<and>
   distinct (map st_id (submission_types ex_twenty)) \<and>
   distinct (map st_name (submission_types ex_twenty)) \<and>
   (\<exists>d. dashboard ex_twenty ex_token_s2 = Inr d \<and>
        dd_student d = ex_s2 \<and> \<not> s_defaulter ex_s2 \<and> length (dd_subjects d) = 20 \<and>
        claimed_completed ex_twenty ex_s2 (map ds_id (dd_subjects d)) = 23 \<and>
        dd_submissionPercentage d = 57 \<and>
        claimed_percentage ex_twenty ex_s2 (map ds_id (dd_subjects d)) = 58)"
proof -
  let ?ids = "map (\<lambda>x. [x]) ''abcdefghijklmnopqrst''"
  have d1: "distinct (map submission_key (student_submissions ex_twenty))"
    by (simp add: ex_twenty_def ex_db_def ex_done_def submission_key_def)
  have d2: "distinct (map st_id (submission_types ex_twenty))"
    by (simp add: ex_twenty_def ex_db_def ex_types_def)
  have d3: "distinct (map st_name (submission_types ex_twenty))"
    by (simp add: ex_twenty_def ex_db_def ex_types_def)
  have nd: "\<not> s_defaulter ex_s2"
    by (simp add: ex_s2_def)
  have "\<exists>d. dashboard ex_twenty ex_token_s2 = Inr d \<and> dd_student d = ex_s2 \<and>
            map ds_id (dd_subjects d) = ?ids \<and>
            dd_submissionPercentage d =
              dashboard_percentage ex_twenty ex_s2 (map ex_subject ''abcdefghijklmnopqrst'')"
    by (simp add: dashboard_def maybeSingle_def selection_of_def dashboard_subjects_def
        class_subjects_def electiveSubjectIds_def shown_ids Let_def
        ex_twenty_def ex_db_def ex_token_s2_def ex_s1_def ex_s2_def ex_subject_def)
  then obtain d where D: "dashboard ex_twenty ex_token_s2 = Inr d \<and> dd_student d = ex_s2 \<and>
            map ds_id (dd_subjects d) = ?ids \<and>
            dd_submissionPercentage d =
              dashboard_percentage ex_twenty ex_s2 (map ex_subject ''abcdefghijklmnopqrst'')" ..
  then have route: "dashboard ex_twenty ex_token_s2 = Inr d"
    and st: "dd_student d = ex_s2" and shown: "map ds_id (dd_subjects d) = ?ids"
    and p: "dd_submissionPercentage d =
              dashboard_percentage ex_twenty ex_s2 (map ex_subject ''abcdefghijklmnopqrst'')"
    by (rule conjunct1, rule conjunct2 [THEN conjunct1],
        rule conjunct2 [THEN conjunct2, THEN conjunct1],
        rule conjunct2 [THEN conjunct2, THEN conjunct2])
  have ids: "map subj_id (map ex_subject ''abcdefghijklmnopqrst'') = ?ids"
    by (simp add: ex_subject_def)
  have c: "claimed_completed ex_twenty ex_s2 ?ids = 23"
    by (simp add: claimed_completed_def completed_of_type_def ex_twenty_def ex_db_def ex_s2_def
        ex_done_def ex_types_def)
  have t: "length (map ex_subject ''abcdefghijklmnopqrst'') * (if s_defaulter ex_s2 then 3 else 2) = 40"
    using nd by simp
  have p57: "dd_submissionPercentage d = 57"
    unfolding p dashboard_percentage_js [OF d1 d2 d3] ids c t
    by (simp add: js_percent_rounds_quotient)
  have n: "length (dd_subjects d) = 20"
    using arg_cong [OF shown, of length] by simp
  have cp: "claimed_percentage ex_twenty ex_s2 ?ids = 58"
    using nd c by (simp add: claimed_percentage_def exact_percent_values)
  from d1 d2 d3 route st nd n c p57 cp show ?thesis
    unfolding shown [symmetric] by blast
qed

section \<open>No subjects\<close>

text \<open>
  Claim C9. A student with no assigned subjects gets the completion percentage 0, in the
  class teacher's list (the \<open>totalSubjects === 0\<close> branch) and on the dashboard (the
  \<open>totalSubmissions > 0\<close> guard): no division takes place.
\<close>

theorem zero_subjects_zero_percent:
  "submission_percentage submissionTypes submissions [] s = 0 \<and>
   dashboard_percentage db st [] = 0"
  by (simp add: submission_percentage_def dashboard_percentage_def subjectsWithSubmissions_def)

text \<open>In a class with no subjects every student of the list gets 0.\<close>

lemma class_students_no_subjects:
  assumes "filter (\<lambda>x. subj_class_id x = Some classId) (subjects db) = []"
  shows "\<forall>(s, p) \<in> set (class_students db classId). p = 0"
  using assms by (auto simp: class_students_def submission_percentage_def Let_def)

section \<open>Rollups\<close>

lemma fold_insert_if:
  "fold (\<lambda>x acc. if P x then insert (f x) acc else acc) xs A = A \<union> f ` {x \<in> set xs. P x}"
  by (induction xs arbitrary: A) auto

lemma studentsWithSubmissions_set:
  "studentsWithSubmissions ts subs =
     sub_student_id ` {sub \<in> set subs. sub_status sub = ''completed'' \<and>
        (hasTypeId (findType ts ''TA'') sub \<or> hasTypeId (findType ts ''CIE'') sub)}"
  unfolding studentsWithSubmissions_def Let_def fold_insert_if by simp

lemma scoped_either:
  "studentsWithSubmissions (submission_types db)
     (filter (\<lambda>sub. sub_student_id sub \<in> set (map s_id studs)) (student_submissions db)) =
   s_id ` set (filter (\<lambda>st. completed_typed db st ''TA'' \<or> completed_typed db st ''CIE'') studs)"
  unfolding studentsWithSubmissions_set completed_typed_def
  by (auto simp: image_iff) metis+

lemma rollup_percentage_either:
  "rollup_percentage db studs =
     (if studs = [] then 0 else js_percent (either_completed_count db studs) (length studs))"
  unfolding rollup_percentage_def Let_def scoped_either either_completed_count_def
  by simp

text \<open>
  Claim C3, as the routes compute it. Each of the class, department and year rollups is
  0 when no student is in scope, and otherwise \<open>Math.round((c / t) * 100)\<close> where
  \<open>t\<close> is the number of students in scope and \<open>c\<close> is the number of those students
  with at least one completed row of type TA or CIE: one completed row of either type is
  enough.
\<close>

theorem rollup_counts_either:
  "class_overallSubmission db c =
     (let studs = filter (\<lambda>s. s_class_id s = Some c) (students db)
      in if studs = [] then 0
         else js_percent (either_completed_count db studs) (length studs)) \<and>
   department_submissionRate db d =
     (let studs = students_in_classes db
                    (map cls_id (filter (\<lambda>c. cls_department_id c = Some d) (classes db)))
      in if studs = [] then 0
         else js_percent (either_completed_count db studs) (length studs)) \<and>
   year_percentage db d y =
     (let studs = students_in_classes db
                    (map cls_id (filter (\<lambda>c. cls_year c = y)
                       (filter (\<lambda>c. cls_department_id c = Some d) (classes db))))
      in if studs = [] then 0
         else js_percent (either_completed_count db studs) (length studs))"
proof -
  have none: "students_in_classes db [] = []"
    by (simp add: students_in_classes_def split: option.splits)
  show ?thesis
    unfolding class_overallSubmission_def department_submissionRate_def year_percentage_def
      Let_def rollup_percentage_either
    using none by auto
qed

lemma js_percent_values: "js_percent 2 2 = 100" "js_percent 1 2 = 50"
  by (simp_all add: js_percent_def Math_round_def js_times_def js_div_def round53_def bits.simps Let_def)

text \<open>
  Claim C3 as stated fails. In the example class \<open>s1\<close> has a completed TA row and a
  completed CIE row, \<open>s2\<close> has completed TA rows only. All three rollups report 100,
  where counting the students with both completed gives 50.
\<close>

theorem rollup_both_counterexample:
  "class_overallSubmission ex_db ''c1'' = 100 \<and>
   department_submissionRate ex_db ''d1'' = 100 \<and>
   year_percentage ex_db ''d1'' 3 = 100 \<and>
   js_percent (both_completed_count ex_db [ex_s1, ex_s2]) (length [ex_s1, ex_s2]) = 50"
proof -
  have studs: "filter (\<lambda>s. s_class_id s = Some ''c1'') (students ex_db) = [ex_s1, ex_s2]"
    by (simp add: ex_db_def ex_s1_def ex_s2_def)
  have studs': "students_in_classes ex_db [''c1''] = [ex_s1, ex_s2]"
    by (simp add: students_in_classes_def ex_db_def ex_s1_def ex_s2_def)
  have cls: "filter (\<lambda>c. cls_department_id c = Some ''d1'') (classes ex_db) = classes ex_db"
    "filter (\<lambda>c. cls_year c = 3) (classes ex_db) = classes ex_db"
    "map cls_id (classes ex_db) = [''c1'']"
    by (simp_all add: ex_db_def)
  have ty: "findType (submission_types ex_db) ''TA'' = Some \<lparr>st_id = ''t-ta'', st_name = ''TA''\<rparr>"
    "findType (submission_types ex_db) ''CIE'' = Some \<lparr>st_id = ''t-cie'', st_name = ''CIE''\<rparr>"
    by (simp_all add: findType_def ex_db_def ex_types_def)
  have ct: "completed_typed ex_db ex_s1 ''TA''" "completed_typed ex_db ex_s1 ''CIE''"
    "completed_typed ex_db ex_s2 ''TA''" "\<not> completed_typed ex_db ex_s2 ''CIE''"
    unfolding completed_typed_def ty
    by (simp_all add: hasTypeId_def ex_db_def ex_submissions_def ex_s1_def ex_s2_def)
  have ids: "s_id ex_s1 \<noteq> s_id ex_s2"
    by (simp add: ex_s1_def ex_s2_def)
  have either: "either_completed_count ex_db [ex_s1, ex_s2] = 2"
    using ids by (simp add: either_completed_count_def ct)
  have both: "both_completed_count ex_db [ex_s1, ex_s2] = 1"
    by (simp add: both_completed_count_def ct)
  have len: "length [ex_s1, ex_s2] = 2"
    by simp
  have r: "rollup_percentage ex_db [ex_s1, ex_s2] = 100"
    unfolding rollup_percentage_either either len js_percent_values by simp
  have claimed: "js_percent (both_completed_count ex_db [ex_s1, ex_s2]) (length [ex_s1, ex_s2]) = 50"
    unfolding both len js_percent_values by simp
  show ?thesis
    unfolding claimed
    by (simp add: class_overallSubmission_def department_submissionRate_def year_percentage_def
        studs studs' cls r)
qed

section \<open>The selection state machine\<close>

lemma missingSubjects_required:
  "missingSubjects (if yr = 0 then 1 else yr) r = missing_required yr r"
  by (simp add: missingSubjects_def missing_required_def required_categories_def category_id_def)

lemma filter_map_same_student:
  assumes "\<And>r. sel_student_id (f r) = sel_student_id r"
  shows "filter (\<lambda>r. sel_student_id r = sid)
           (map (\<lambda>r. if sel_student_id r = sid then f r else r) rows) =
         map f (filter (\<lambda>r. sel_student_id r = sid) rows)"
  by (induction rows) (simp_all add: assms)

lemma selection_of_update:
  assumes "\<And>r. sel_student_id (f r) = sel_student_id r"
  shows "selection_of (update_selection db sid f) sid = map f (selection_of db sid)"
  by (simp add: selection_of_def update_selection_def filter_map_same_student [OF assms])

text \<open>
  Claim C6, for a student who has a selection row. The class row of the student is
  \<open>c\<close>. A lock call of a student whose selection row is \<open>r\<close> fails with the message
  that lists exactly the required categories of the class year whose subject is null
  (year 2: OE, MDM; year 3: OE, MDM, PE; year 4: OE, PE; in that order), and when none
  is null it succeeds and the row becomes locked. A lock call of a student with no
  selection row fails with the message that no elective selections were found, which
  lists nothing, whatever the year.
\<close>

theorem lock_selections_rule:
  assumes "filter (\<lambda>c. cls_id c = class_id) (classes db) = [c]"
  shows "(selection_of db student_id = [] \<longrightarrow>
            lock_selections db student_id class_id = (no_selections_response, db)) \<and>
         (selection_of db student_id = [r] \<longrightarrow>
            (let missing = missing_required (cls_year c) r;
                 result = lock_selections db student_id class_id
             in if missing = []
                then fst result = locked_ok \<and>
                     selection_of (snd result) student_id = [r\<lparr>selections_locked := True\<rparr>]
                else result = (incomplete_response missing, db)))"
  using assms
  by (simp add: lock_selections_def maybeSingle_def Let_def missingSubjects_required
      selection_of_update)

text \<open>
  Claim C6 as stated fails for a student who never selected anything: the third-year
  student \<open>s1\<close> of the example store has no selection row, so all three categories are
  missing, and the lock call answers that no selections were found instead of listing
  OE, MDM and PE.
\<close>

theorem lock_without_row_counterexample:
  "lock_selections ex_db ''s1'' ''c1'' = (no_selections_response, ex_db) \<and>
   no_selections_response \<noteq> incomplete_response [''OE'', ''MDM'', ''PE'']"
  by (simp add: lock_selections_def maybeSingle_def selection_of_def ex_db_def
      no_selections_response_def incomplete_response_def)


theorem lock_selections_rule_witness:
  "lock_selections (ex_db\<lparr>student_subject_selection := [ex_missing_pe]\<rparr>) ''s1'' ''c1'' =
     (incomplete_response [''PE''], ex_db\<lparr>student_subject_selection := [ex_missing_pe]\<rparr>) \<and>
   lock_selections (ex_db\<lparr>student_subject_selection := [new_selection ''s1'']\<rparr>) ''s1'' ''c1'' =
     (incomplete_response [''OE'', ''MDM'', ''PE''],
      ex_db\<lparr>student_subject_selection := [new_selection ''s1'']\<rparr>) \<and>
   fst (lock_selections (ex_db\<lparr>student_subject_selection := [ex_locked\<lparr>selections_locked := False\<rparr>]\<rparr>)
          ''s1'' ''c1'') = locked_ok \<and>
   selection_of (snd (lock_selections
       (ex_db\<lparr>student_subject_selection := [ex_locked\<lparr>selections_locked := False\<rparr>]\<rparr>) ''s1'' ''c1''))
     ''s1'' = [ex_locked] \<and>
   lock_selections ex_db ''s1'' ''c1'' = (no_selections_response, ex_db)"
proof -
  let ?c = "\<lparr>cls_id = ''c1'', cls_year = 3, cls_department_id = Some ''d1''\<rparr>"
  have cls: "filter (\<lambda>c. cls_id c = ''c1'') (classes (ex_db\<lparr>student_subject_selection := rows\<rparr>)) = [?c]"
    for rows
    by (simp add: ex_db_def)
  have cls0: "filter (\<lambda>c. cls_id c = ''c1'') (classes ex_db) = [?c]"
    by (simp add: ex_db_def)
  have sel: "selection_of (ex_db\<lparr>student_subject_selection := [r]\<rparr>) ''s1'' = [r]"
    if "sel_student_id r = ''s1''" for r
    using that by (simp add: selection_of_def)
  have m1: "missing_required 3 ex_missing_pe = [''PE'']"
    by (simp add: missing_required_def required_categories_def category_id_def ex_missing_pe_def)
  have m2: "missing_required 3 (new_selection ''s1'') = [''OE'', ''MDM'', ''PE'']"
    by (simp add: missing_required_def required_categories_def category_id_def new_selection_def)
  have m3: "missing_required 3 (ex_locked\<lparr>selections_locked := False\<rparr>) = []"
    by (simp add: missing_required_def required_categories_def category_id_def ex_locked_def)
  have l: "ex_locked\<lparr>selections_locked := False, selections_locked := True\<rparr> = ex_locked"
    by (simp add: ex_locked_def)
  have none: "selection_of ex_db ''s1'' = []"
    by (simp add: selection_of_def ex_db_def)
  show ?thesis
    using lock_selections_rule [OF cls, of "[ex_missing_pe]" "''s1''" ex_missing_pe]
      lock_selections_rule [OF cls, of "[new_selection ''s1'']" "''s1''" "new_selection ''s1''"]
      lock_selections_rule [OF cls, of "[ex_locked\<lparr>selections_locked := False\<rparr>]" "''s1''"
        "ex_locked\<lparr>selections_locked := False\<rparr>"]
      lock_selections_rule [OF cls0, of "''s1''" ex_locked]
      sel [of ex_missing_pe] sel [of "new_selection ''s1''"]
      sel [of "ex_locked\<lparr>selections_locked := False\<rparr>"] m1 m2 m3 l none
    by (simp add: ex_missing_pe_def new_selection_def ex_locked_def Let_def)
qed

lemma selection_of_students_update [simp]:
  "selection_of (db\<lparr>students := xs\<rparr>) sid = selection_of db sid"
  by (simp add: selection_of_def)

lemma selection_of_insert:
  "selection_of db sid = [] \<Longrightarrow> sel_student_id r = sid \<Longrightarrow>
   selection_of (insert_selection db r) sid = [r]"
  by (simp add: selection_of_def insert_selection_def)

lemma selectionsData_student [simp]: "sel_student_id (selectionsData es r) = sel_student_id r"
  by (simp add: selectionsData_def)

text \<open>
  Claim C10. A class teacher's update that passes the guards of the route (student id
  and class id present, the student found, in the caller's class) for a student with at
  most one selection row, and that supplies \<open>electiveSelections\<close>, succeeds and leaves
  the student with one selection row whose six elective columns are the supplied values,
  null where a value is absent or empty. Neither \<open>selections_locked\<close> nor
  \<open>faculty_subjects\<close> nor the offered subjects are consulted: the row keeps its lock
  flag, and the outcome is the same whoever teaches what.
\<close>

theorem update_student_overwrites:
  assumes "sid \<noteq> []" and "classId \<noteq> []"
    and "filter (\<lambda>s. s_id s = sid) (students db) = [st]"
    and "s_class_id st = Some classId"
    and "b_electiveSelections body = Some es"
    and "length (selection_of db sid) \<le> 1"
  shows "fst (update_student db classId sid body) = student_updated \<and>
         (\<exists>r. selection_of (snd (update_student db classId sid body)) sid = [r] \<and>
              mdm_id r = or_null (eb_mdm_id es) \<and> oe_id r = or_null (eb_oe_id es) \<and>
              pe_id r = or_null (eb_pe_id es) \<and>
              mdm_faculty_id r = or_null (eb_mdm_faculty_id es) \<and>
              oe_faculty_id r = or_null (eb_oe_faculty_id es) \<and>
              pe_faculty_id r = or_null (eb_pe_faculty_id es) \<and>
              selections_locked r = (\<exists>old \<in> set (selection_of db sid). selections_locked old))"
proof (cases "selection_of db sid")
  case Nil
  then show ?thesis
    using assms(1-5)
    by (simp add: update_student_def single_def maybeSingle_def Let_def selection_of_insert
        new_selection_def selectionsData_def)
next
  case (Cons old rest)
  with assms(6) have rest: "rest = []"
    by simp
  show ?thesis
    using assms(1-5) Cons rest
    by (simp add: update_student_def single_def maybeSingle_def Let_def selection_of_update
        selectionsData_def)
qed


theorem update_student_overwrites_witness:
  "selections_locked ex_locked \<and>
   \<not> teaches (ex_db\<lparr>student_subject_selection := [ex_locked]\<rparr>) ''f9'' ''A'' \<and>
   fst (update_student (ex_db\<lparr>student_subject_selection := [ex_locked]\<rparr>) ''c1'' ''s1''
          (ex_body ex_stranger)) = student_updated \<and>
   (\<exists>r. selection_of (snd (update_student (ex_db\<lparr>student_subject_selection := [ex_locked]\<rparr>)
                               ''c1'' ''s1'' (ex_body ex_stranger))) ''s1'' = [r] \<and>
        mdm_id r = Some ''A'' \<and> oe_id r = None \<and> pe_id r = None \<and>
        mdm_faculty_id r = Some ''f9'' \<and> oe_faculty_id r = None \<and> pe_faculty_id r = None \<and>
        selections_locked r)"
proof -
  let ?db = "ex_db\<lparr>student_subject_selection := [ex_locked]\<rparr>"
  have st: "filter (\<lambda>s. s_id s = ''s1'') (students ?db) = [ex_s1]"
    by (simp add: ex_db_def ex_s1_def ex_s2_def)
  have cl: "s_class_id ex_s1 = Some ''c1''"
    by (simp add: ex_s1_def)
  have es: "b_electiveSelections (ex_body ex_stranger) = Some ex_stranger"
    by (simp add: ex_body_def)
  have sel: "selection_of ?db ''s1'' = [ex_locked]"
    by (simp add: selection_of_def ex_locked_def)
  have one: "length (selection_of ?db ''s1'') \<le> 1"
    by (simp add: sel)
  have lk: "selections_locked ex_locked"
    by (simp add: ex_locked_def)
  have nt: "\<not> teaches ?db ''f9'' ''A''"
    by (simp add: teaches_def ex_db_def)
  have vals: "or_null (eb_mdm_id ex_stranger) = Some ''A''" "or_null (eb_oe_id ex_stranger) = None"
    "or_null (eb_pe_id ex_stranger) = None" "or_null (eb_mdm_faculty_id ex_stranger) = Some ''f9''"
    "or_null (eb_oe_faculty_id ex_stranger) = None" "or_null (eb_pe_faculty_id ex_stranger) = None"
    by (simp_all add: or_null_def ex_stranger_def)
  show ?thesis
    using update_student_overwrites [of "''s1''" "''c1''" ?db ex_s1 "ex_body ex_stranger" ex_stranger,
        OF _ _ st cl es one] lk nt
    unfolding vals sel by simp
qed

text \<open>
  What the select call does for a well-formed request of a student with at most one
  selection row: it is refused as locked when the row is locked; otherwise it is refused
  when no \<open>faculty_subjects\<close> row links the faculty to the subject; and when exactly
  one row links them it succeeds and the student's row holds the pair in the columns of
  the category, the other columns as before.
\<close>

lemma select_elective_rule:
  assumes "subject_id \<noteq> []" and "faculty_id \<noteq> []" and "type \<in> {''MDM'', ''OE'', ''PE''}"
    and "length (selection_of db student_id) \<le> 1"
  shows "((\<exists>r \<in> set (selection_of db student_id). selections_locked r) \<longrightarrow>
            select_elective db student_id subject_id faculty_id type = (locked_response, db)) \<and>
         ((\<forall>r \<in> set (selection_of db student_id). \<not> selections_locked r) \<and>
          facultySubject db subject_id faculty_id = [] \<longrightarrow>
            select_elective db student_id subject_id faculty_id type = (not_teaching, db)) \<and>
         ((\<forall>r \<in> set (selection_of db student_id). \<not> selections_locked r) \<and>
          length (facultySubject db subject_id faculty_id) = 1 \<longrightarrow>
            (\<exists>code msg. fst (select_elective db student_id subject_id faculty_id type) =
                          Success code msg) \<and>
            selection_of (snd (select_elective db student_id subject_id faculty_id type)) student_id =
              [updateData type subject_id faculty_id
                 (case selection_of db student_id of [] \<Rightarrow> new_selection student_id | r # rs \<Rightarrow> r)])"
proof (cases "selection_of db student_id")
  case Nil
  have ins: "selection_of (insert_selection db r) student_id = [r]"
    if "sel_student_id r = student_id" for r
    using Nil that by (simp add: selection_of_def insert_selection_def)
  have upd: "sel_student_id (updateData type subject_id faculty_id r) = sel_student_id r" for r
    by (simp add: updateData_def)
  show ?thesis
    using assms(1-3) Nil
    by (auto simp: select_elective_def maybeSingle_def ins upd new_selection_def
        split: list.splits)
next
  case (Cons r rs)
  with assms(4) have rs: "rs = []"
    by simp
  have upd: "sel_student_id (updateData type subject_id faculty_id r) = sel_student_id r" for r
    by (simp add: updateData_def)
  show ?thesis
    using assms(1-3) Cons rs
    by (auto simp: select_elective_def maybeSingle_def selection_of_update upd
        split: list.splits)
qed

text \<open>
  Claim C5 on the code: faculty \<open>f1\<close> is linked to subject \<open>B\<close> by two
  \<open>faculty_subjects\<close> rows (one per batch) and student \<open>s1\<close> has no selection row,
  hence is not locked. The select call is refused with the message that the faculty does
  not teach the subject, because \<open>.maybeSingle()\<close> reports an error for two rows.
\<close>

theorem select_elective_two_assignments:
  "length (facultySubject ex_two_batches ''B'' ''f1'') = 2 \<and>
   teaches ex_two_batches ''f1'' ''B'' \<and>
   selection_of ex_two_batches ''s1'' = [] \<and>
   select_elective ex_two_batches ''s1'' ''B'' ''f1'' ''MDM'' = (not_teaching, ex_two_batches)"
proof -
  have fs: "facultySubject ex_two_batches ''B'' ''f1'' = faculty_subjects ex_two_batches"
    by (simp add: facultySubject_def ex_two_batches_def)
  have len: "length (faculty_subjects ex_two_batches) = 2"
    by (simp add: ex_two_batches_def)
  have t: "teaches ex_two_batches ''f1'' ''B''"
    by (simp add: teaches_def ex_two_batches_def)
  have sel: "selection_of ex_two_batches ''s1'' = []"
    by (simp add: selection_of_def ex_two_batches_def ex_db_def)
  have ms: "maybeSingle (facultySubject ex_two_batches ''B'' ''f1'') = Inl Multiple_rows"
    unfolding fs by (simp add: maybeSingle_def ex_two_batches_def)
  have none: "maybeSingle ([] :: selection list) = Inr None"
    by (simp add: maybeSingle_def)
  have call: "select_elective ex_two_batches ''s1'' ''B'' ''f1'' ''MDM'' = (not_teaching, ex_two_batches)"
    by (simp add: select_elective_def ms sel none)
  show ?thesis
    using t sel call len fs by simp
qed

text \<open>
  Claim C8 on the code: every selection row of the example store satisfies the pairing
  invariant (there is none). The class teacher's update of \<open>s1\<close> with an MDM subject
  and no faculty succeeds and writes a row whose \<open>mdm_id\<close> is set while
  \<open>mdm_faculty_id\<close> is null, so the invariant no longer holds.
\<close>

theorem update_student_breaks_pairing:
  "selections_valid ex_db \<and>
   fst (update_student ex_db ''c1'' ''s1'' (ex_body ex_mdm_only)) = student_updated \<and>
   selection_of (snd (update_student ex_db ''c1'' ''s1'' (ex_body ex_mdm_only))) ''s1'' =
     [(new_selection ''s1'')\<lparr>mdm_id := Some ''A''\<rparr>] \<and>
   \<not> selections_valid (snd (update_student ex_db ''c1'' ''s1'' (ex_body ex_mdm_only)))"
proof -
  have st: "filter (\<lambda>s. s_id s = ''s1'') (students ex_db) = [ex_s1]"
    by (simp add: ex_db_def ex_s1_def ex_s2_def)
  have cl: "s_class_id ex_s1 = Some ''c1''"
    by (simp add: ex_s1_def)
  have sel: "student_subject_selection ex_db = []"
    by (simp add: ex_db_def)
  have es: "b_electiveSelections (ex_body ex_mdm_only) = Some ex_mdm_only"
    by (simp add: ex_body_def)
  have r: "selectionsData ex_mdm_only (new_selection ''s1'') = (new_selection ''s1'')\<lparr>mdm_id := Some ''A''\<rparr>"
    by (simp add: selectionsData_def ex_mdm_only_def or_null_def new_selection_def)
  have u: "update_student ex_db ''c1'' ''s1'' (ex_body ex_mdm_only) =
      (student_updated,
       insert_selection (ex_db\<lparr>students := map (\<lambda>s. if s_id s = ''s1''
            then update_student_row (ex_body ex_mdm_only) s else s) (students ex_db)\<rparr>)
         ((new_selection ''s1'')\<lparr>mdm_id := Some ''A''\<rparr>))"
    using es by (simp add: update_student_def st cl single_def maybeSingle_def selection_of_def sel
        r Let_def)
  show ?thesis
    unfolding u
    by (simp add: selections_valid_def sel insert_selection_def selection_of_def
        selection_valid_def pair_valid_def new_selection_def)
qed

section \<open>Elective eligibility by year and department\<close>

lemma lowered_pe: "lowered (Some ''pe'') = ''pe''"
  by (simp add: lowered_def toLowerCase_def)

lemma lowered_name: "lowered (Some ''Compiler Design'') = ''compiler design''"
  by code_simp

text \<open>
  Claim C7 on the code: for the second-year class of the example store, with an active
  offered subject of type \<open>pe\<close> of the class's own department and year, the student
  route returns three empty buckets, and the class-teacher route returns the subject in
  its PE bucket: that route applies no year table.
\<close>

theorem teacher_electives_year2_pe:
  "student_elective_subjects ex_year2 ''s3'' ''c2'' = Inr (empty_electives, None) \<and>
   teacher_elective_subjects ex_year2 ''c2'' ''s3'' =
     Inr (\<lparr>el_mdm = [], el_oe = [],
           el_pe = [\<lparr>ee_id = ''P'', ee_code = Some ''CS7'', ee_name = Some ''Compiler Design'',
                     ee_semester = None, ee_faculties = [(''f1'', ''Dr. Rao'')]\<rparr>]\<rparr>, None)"
proof -
  let ?o = "\<lparr>os_subject_id = ''P'', os_department_id = Some ''d1'', os_year = 2, os_semester = 3,
          os_faculty_ids = Some [''f1''], os_is_active = True\<rparr>"
  have off: "activeOffered ex_year2 2 = [?o]"
    by (simp add: activeOffered_def ex_year2_def)
  have js: "joined_subject ex_year2 ''P'' = Some ex_P"
    by (simp add: joined_subject_def ex_year2_def ex_P_def)
  have fm: "facultyMap ex_year2 [?o] ''f1'' = Some ''Dr. Rao''"
    by (simp add: facultyMap_def Set_from_def ex_year2_def setFaculty_def)
  have cls: "filter (\<lambda>c. cls_id c = ''c2'') (classes ex_year2) =
      [\<lparr>cls_id = ''c2'', cls_year = 2, cls_department_id = Some ''d1''\<rparr>]"
    by (simp add: ex_year2_def)
  have st: "filter (\<lambda>s. s_id s = ''s3'') (students ex_year2) = [ex_s3]"
    by (simp add: ex_year2_def ex_s3_def)
  have sel: "selection_of ex_year2 ''s3'' = []"
    by (simp add: selection_of_def ex_year2_def)
  have ty: "subj_type ex_P = Some ''pe''" "subj_name ex_P = Some ''Compiler Design''"
    "subj_id ex_P = ''P''" "subj_code ex_P = Some ''CS7''"
    by (simp_all add: ex_P_def)
  have inc: "\<not> includes_str ''compiler design'' ''multidisciplinary''"
    "\<not> includes_str ''compiler design'' ''open elective''"
    "\<not> includes_str ''compiler design'' ''mdm''"
    "\<not> includes_str ''compiler design'' ''oe''"
    by simp_all
  have student: "student_elective_subjects ex_year2 ''s3'' ''c2'' = Inr (empty_electives, None)"
    by (simp add: student_elective_subjects_def cls maybeSingle_def off sel categorize_student_def
        js ty lowered_pe lowered_name inc Let_def)
  have teacher: "teacher_elective_subjects ex_year2 ''c2'' ''s3'' =
     Inr (\<lparr>el_mdm = [], el_oe = [],
           el_pe = [\<lparr>ee_id = ''P'', ee_code = Some ''CS7'', ee_name = Some ''Compiler Design'',
                     ee_semester = None, ee_faculties = [(''f1'', ''Dr. Rao'')]\<rparr>]\<rparr>, None)"
    by (simp add: teacher_elective_subjects_def cls st single_def maybeSingle_def off sel
        categorize_teacher_def js ty lowered_pe lowered_name inc Let_def ex_s3_def
        empty_electives_def facultyOptions_def fm)
  show ?thesis
    using student teacher by simp
qed


lemma categorize_student_pe:
  "e \<in> set (el_pe (categorize_student db y d fm os acc)) \<Longrightarrow>
   e \<in> set (el_pe acc) \<or>
   ((y = 3 \<or> y = 4) \<and> os_department_id os = d \<and>
    (\<exists>subject. joined_subject db (os_subject_id os) = Some subject \<and> ee_id e = subj_id subject))"
  by (auto simp: categorize_student_def Let_def split: option.splits if_splits)

lemma fold_categorize_student_pe:
  "e \<in> set (el_pe (fold (categorize_student db y d fm) oss acc)) \<Longrightarrow>
   e \<in> set (el_pe acc) \<or> ((y = 3 \<or> y = 4) \<and> from_department db oss d e)"
proof (induction oss arbitrary: acc)
  case Nil
  then show ?case by simp
next
  case (Cons os oss)
  from Cons.prems
  have "e \<in> set (el_pe (fold (categorize_student db y d fm) oss (categorize_student db y d fm os acc)))"
    by simp
  from Cons.IH [OF this] categorize_student_pe [of e db y d fm os acc]
  show ?case
    by (auto simp: from_department_def)
qed

lemma categorize_teacher_pe:
  "e \<in> set (el_pe (categorize_teacher db d fm os acc)) \<Longrightarrow>
   e \<in> set (el_pe acc) \<or>
   (os_department_id os = d \<and>
    (\<exists>subject. joined_subject db (os_subject_id os) = Some subject \<and> ee_id e = subj_id subject))"
  by (auto simp: categorize_teacher_def Let_def split: option.splits if_splits)

lemma fold_categorize_teacher_pe:
  "e \<in> set (el_pe (fold (categorize_teacher db d fm) oss acc)) \<Longrightarrow>
   e \<in> set (el_pe acc) \<or> from_department db oss d e"
proof (induction oss arbitrary: acc)
  case Nil
  then show ?case by simp
next
  case (Cons os oss)
  from Cons.prems
  have "e \<in> set (el_pe (fold (categorize_teacher db d fm) oss (categorize_teacher db d fm os acc)))"
    by simp
  from Cons.IH [OF this] categorize_teacher_pe [of e db d fm os acc]
  show ?case
    by (auto simp: from_department_def)
qed

text \<open>
  What holds of the two routes: the student route returns an empty PE bucket for a
  second-year class, and in both routes every PE entry comes from an offered row of the
  class's own department.
\<close>

lemma student_electives_pe:
  assumes "student_elective_subjects db student_id class_id = Inr (els, cur)"
    and "filter (\<lambda>c. cls_id c = class_id) (classes db) = [classInfo]"
  shows "(cls_year classInfo = 2 \<longrightarrow> el_pe els = []) \<and>
         (\<forall>e \<in> set (el_pe els).
            from_department db (activeOffered db (cls_year classInfo)) (cls_department_id classInfo) e)"
proof -
  from assms have els: "els = fold (categorize_student db (cls_year classInfo)
        (cls_department_id classInfo) (facultyMap db (activeOffered db (cls_year classInfo))))
        (activeOffered db (cls_year classInfo)) empty_electives"
    by (auto simp: student_elective_subjects_def maybeSingle_def Let_def split: sum.splits)
  have pe: "e \<in> set (el_pe els) \<Longrightarrow>
      (cls_year classInfo = 3 \<or> cls_year classInfo = 4) \<and>
      from_department db (activeOffered db (cls_year classInfo)) (cls_department_id classInfo) e" for e
    unfolding els using fold_categorize_student_pe [of e db] by (fastforce simp: empty_electives_def)
  have "cls_year classInfo = 2 \<Longrightarrow> el_pe els = []"
  proof (rule ccontr)
    assume y: "cls_year classInfo = 2" and ne: "el_pe els \<noteq> []"
    then obtain e where "e \<in> set (el_pe els)"
      by (cases "el_pe els") auto
    from pe [OF this] y show False by simp
  qed
  with pe show ?thesis by blast
qed

lemma teacher_electives_pe:
  assumes "teacher_elective_subjects db class_id studentId = Inr (els, cur)"
    and "filter (\<lambda>c. cls_id c = class_id) (classes db) = [classInfo]"
  shows "\<forall>e \<in> set (el_pe els).
            from_department db (activeOffered db (cls_year classInfo)) (cls_department_id classInfo) e"
proof -
  from assms have els: "els = fold (categorize_teacher db
        (cls_department_id classInfo) (facultyMap db (activeOffered db (cls_year classInfo))))
        (activeOffered db (cls_year classInfo)) empty_electives"
    by (auto simp: teacher_elective_subjects_def single_def maybeSingle_def Let_def
        split: sum.splits if_splits)
  show ?thesis
    unfolding els using fold_categorize_teacher_pe [of _ db] by (fastforce simp: empty_electives_def)
qed

section \<open>The students of a faculty and subject, once each\<close>

lemma fold_uniqueStudentsMap:
  "fold (\<lambda>st m. if s_id st \<in> fst ` set m then m else m @ [(s_id st, st)]) xs m =
   m @ map (\<lambda>st. (s_id st, st)) (first_seen (fst ` set m) xs)"
proof (induction xs arbitrary: m)
  case Nil
  then show ?case by simp
next
  case (Cons x xs)
  show ?case
  proof (cases "s_id x \<in> fst ` set m")
    case True
    then show ?thesis by (simp add: Cons.IH)
  next
    case False
    have "fst ` set (m @ [(s_id x, x)]) = insert (s_id x) (fst ` set m)"
      by auto
    with False show ?thesis by (simp add: Cons.IH)
  qed
qed

lemma uniqueStudents_first_seen: "uniqueStudents xs = first_seen {} xs"
  by (simp add: uniqueStudents_def uniqueStudentsMap_def fold_uniqueStudentsMap comp_def)

lemma first_seen_ids: "s_id ` set (first_seen seen xs) = s_id ` set xs - seen"
  by (induction xs arbitrary: seen) auto

lemma first_seen_distinct: "distinct (map s_id (first_seen seen xs))"
proof (induction xs arbitrary: seen)
  case Nil
  then show ?case by simp
next
  case (Cons x xs)
  have "s_id x \<notin> s_id ` set (first_seen (insert (s_id x) seen) xs)"
    by (simp add: first_seen_ids)
  then show ?case
    by (simp add: Cons.IH)
qed

lemma first_seen_append:
  "first_seen seen (xs @ ys) = first_seen seen xs @ first_seen (seen \<union> s_id ` set xs) ys"
proof (induction xs arbitrary: seen)
  case Nil
  then show ?case by simp
next
  case (Cons x xs)
  have "insert (s_id x) seen \<union> s_id ` set xs = seen \<union> s_id ` set (x # xs)"
    by auto
  moreover have "s_id x \<in> seen \<Longrightarrow> seen \<union> s_id ` set xs = seen \<union> s_id ` set (x # xs)"
    by auto
  ultimately show ?case
    by (simp add: Cons.IH)
qed

lemma first_seen_filter:
  "first_seen (seen \<union> A) ys = filter (\<lambda>y. s_id y \<notin> A) (first_seen seen ys)"
proof (induction ys arbitrary: seen)
  case Nil
  then show ?case by simp
next
  case (Cons y ys)
  have absorb: "s_id y \<in> A \<Longrightarrow> insert (s_id y) (seen \<union> A) = seen \<union> A"
    by auto
  show ?case
  proof (cases "s_id y \<in> seen")
    case True
    then show ?thesis by (simp add: Cons.IH)
  next
    case False
    show ?thesis
    proof (cases "s_id y \<in> A")
      case True
      with False show ?thesis
        using Cons.IH [of "insert (s_id y) seen"] by (simp add: absorb)
    next
      case notA: False
      with False show ?thesis
        using Cons.IH [of "insert (s_id y) seen"] by simp
    qed
  qed
qed

lemma uniqueStudents_append:
  "uniqueStudents (xs @ ys) =
   uniqueStudents xs @ filter (\<lambda>y. s_id y \<notin> s_id ` set xs) (uniqueStudents ys)"
  using first_seen_append [of "{}" xs ys] first_seen_filter [of "{}" "s_id ` set xs" ys]
  by (simp add: uniqueStudents_first_seen)

lemma uniqueStudents_distinct: "distinct (map s_id (uniqueStudents xs))"
  by (simp add: uniqueStudents_first_seen first_seen_distinct)

lemma uniqueStudents_ids: "s_id ` set (uniqueStudents xs) = s_id ` set xs"
  by (simp add: uniqueStudents_first_seen first_seen_ids)

lemma fold_Set_from:
  "set (fold (\<lambda>x acc. if x \<in> set acc then acc else acc @ [x]) xs acc) = set acc \<union> set xs"
  by (induction xs arbitrary: acc) auto

lemma set_Set_from [simp]: "set (Set_from xs) = set xs"
  by (simp add: Set_from_def fold_Set_from)

lemma set_order_by_roll_no [simp]: "set (order_by_roll_no xs) = set xs"
  by (simp add: order_by_roll_no_def)

lemma joined_subject_Some:
  "joined_subject db i = Some x \<Longrightarrow> subj_id x = i \<and> x \<in> set (subjects db)"
  by (auto simp: joined_subject_def find_Some_iff)

lemma joined_subject_exists:
  "\<exists>x \<in> set (subjects db). subj_id x = i \<Longrightarrow> \<exists>x. joined_subject db i = Some x"
  by (cases "joined_subject db i") (auto simp: joined_subject_def find_None_iff)

lemma find_the_row:
  assumes "x \<in> set xs" and "P x" and "\<And>y. y \<in> set xs \<Longrightarrow> P y \<Longrightarrow> y = x"
  shows "find P xs = Some x"
  using assms
proof (induction xs)
  case Nil
  then show ?case by simp
next
  case (Cons a xs)
  show ?case
  proof (cases "P a")
    case True
    have "a = x"
      by (rule Cons.prems(3)) (simp_all add: True)
    with True show ?thesis by simp
  next
    case False
    with Cons.prems(1,2) have "x \<in> set xs"
      by auto
    then have "find P xs = Some x"
      by (rule Cons.IH) (simp_all add: Cons.prems)
    with False show ?thesis by simp
  qed
qed

lemma batch_case:
  "(case b of None \<Rightarrow> True | Some b' \<Rightarrow> sb = Some b') \<longleftrightarrow> (b = None \<or> b = sb)"
  by (cases b) auto

lemma set_assignment_students:
  "set (assignment_students db a) =
     {st \<in> set (students db). fs_class_id a \<noteq> None \<and> s_class_id st = fs_class_id a \<and>
        (fs_batch_id a = None \<or> fs_batch_id a = s_batch_id st)}"
  unfolding assignment_students_def set_order_by_roll_no set_filter batch_case [symmetric]
  by simp

lemma set_direct_students:
  "set (direct_students db f s) = {st \<in> set (students db). directly_assigned db f s st}"
  unfolding direct_students_def directly_assigned_def Let_def
  by (simp add: set_assignment_students) blast

lemma selected_with_elective:
  "selected_with f s r \<Longrightarrow> r \<in> set (student_subject_selection db) \<Longrightarrow>
   r \<in> set (electiveSelections db f)"
  by (auto simp: selected_with_def electiveSelections_def)

lemma set_elective_students:
  "set (elective_students db f s) = {st \<in> set (students db). self_selected db f s st}"
proof -
  let ?ids = "map sel_student_id (filter (selected_with f s) (electiveSelections db f))"
  have ids: "set ?ids = {sel_student_id r | r. r \<in> set (student_subject_selection db) \<and> selected_with f s r}"
    using selected_with_elective [of f s _ db] by (auto simp: electiveSelections_def)
  show ?thesis
  proof (cases "?ids = []")
    case True
    then have "set ?ids = {}" by simp
    then have "{sel_student_id r | r. r \<in> set (student_subject_selection db) \<and> selected_with f s r} = {}"
      unfolding ids .
    then have none: "\<And>r. r \<in> set (student_subject_selection db) \<Longrightarrow> \<not> selected_with f s r"
      by blast
    from True have "elective_students db f s = []"
      by (simp add: elective_students_def)
    with none show ?thesis
      by (auto simp: self_selected_def)
  next
    case False
    then have "set (elective_students db f s) = {st \<in> set (students db). s_id st \<in> set ?ids}"
      by (simp add: elective_students_def Let_def)
    also have "\<dots> = {st \<in> set (students db). self_selected db f s st}"
      unfolding ids self_selected_def by auto metis
    finally show ?thesis .
  qed
qed


lemma assignment_subject_Some:
  "assignment_subject db a = Some subject \<Longrightarrow> fs_subject_id a = Some (subj_id subject)"
  by (cases "fs_subject_id a") (auto simp: assignment_subject_def dest: joined_subject_Some)

lemma assigned_entries_iff:
  "e \<in> set (assigned_entries db f) \<longleftrightarrow>
   (\<exists>st \<in> set (students db). \<exists>a \<in> set (faculty_subjects db). \<exists>subject.
      fs_faculty_id a = f \<and> s_class_id st \<noteq> None \<and> assignment_subject db a = Some subject \<and>
      isApplicable a st \<and> e = with_subject st subject)"
proof -
  define assignments where "assignments = filter (\<lambda>fs. fs_faculty_id fs = f) (faculty_subjects db)"
  define classIds where
    "classIds = Set_from (concat (map (\<lambda>a. case fs_class_id a of None \<Rightarrow> [] | Some c \<Rightarrow> [c])
                                         assignments))"
  define allStudents where
    "allStudents = (if 0 < length classIds
             then order_by_roll_no
                    (filter (\<lambda>st. case s_class_id st of None \<Rightarrow> False | Some c \<Rightarrow> c \<in> set classIds)
                       (students db))
             else [])"
  have classIds: "c \<in> set classIds \<longleftrightarrow> (\<exists>a \<in> set assignments. fs_class_id a = Some c)" for c
    unfolding classIds_def by (auto split: option.splits) metis
  have all: "st \<in> set allStudents \<longleftrightarrow>
      st \<in> set (students db) \<and> (\<exists>c. s_class_id st = Some c \<and> c \<in> set classIds)" for st
  proof (cases "classIds = []")
    case True
    then show ?thesis by (simp add: allStudents_def)
  next
    case False
    then show ?thesis by (auto simp: allStudents_def split: option.splits)
  qed
  have asg: "a \<in> set assignments \<longleftrightarrow> a \<in> set (faculty_subjects db) \<and> fs_faculty_id a = f" for a
    by (simp add: assignments_def)
  have entries: "assigned_entries db f =
      concat (map (\<lambda>st.
           concat (map (\<lambda>assignment.
              case assignment_subject db assignment of
                None \<Rightarrow> []
              | Some subject \<Rightarrow> if isApplicable assignment st then [with_subject st subject] else [])
            assignments)) allStudents)"
    unfolding assigned_entries_def Let_def assignments_def classIds_def allStudents_def
    by (rule refl)
  have "e \<in> set (assigned_entries db f) \<longleftrightarrow>
      (\<exists>st \<in> set allStudents. \<exists>a \<in> set assignments. \<exists>subject.
         assignment_subject db a = Some subject \<and> isApplicable a st \<and> e = with_subject st subject)"
    unfolding entries by (auto split: option.splits if_splits) metis+
  also have "\<dots> \<longleftrightarrow> (\<exists>st \<in> set (students db). \<exists>a \<in> set (faculty_subjects db). \<exists>subject.
      fs_faculty_id a = f \<and> s_class_id st \<noteq> None \<and> assignment_subject db a = Some subject \<and>
      isApplicable a st \<and> e = with_subject st subject)"
  proof
    assume "\<exists>st \<in> set allStudents. \<exists>a \<in> set assignments. \<exists>subject.
         assignment_subject db a = Some subject \<and> isApplicable a st \<and> e = with_subject st subject"
    then obtain st a subject where h: "st \<in> set allStudents" "a \<in> set assignments"
      "assignment_subject db a = Some subject" "isApplicable a st" "e = with_subject st subject"
      by blast
    from h(1) have "st \<in> set (students db)" "s_class_id st \<noteq> None"
      by (auto simp: all)
    with h asg show "\<exists>st \<in> set (students db). \<exists>a \<in> set (faculty_subjects db). \<exists>subject.
      fs_faculty_id a = f \<and> s_class_id st \<noteq> None \<and> assignment_subject db a = Some subject \<and>
      isApplicable a st \<and> e = with_subject st subject"
      by blast
  next
    assume "\<exists>st \<in> set (students db). \<exists>a \<in> set (faculty_subjects db). \<exists>subject.
      fs_faculty_id a = f \<and> s_class_id st \<noteq> None \<and> assignment_subject db a = Some subject \<and>
      isApplicable a st \<and> e = with_subject st subject"
    then obtain st a subject where h: "st \<in> set (students db)" "a \<in> set (faculty_subjects db)"
      "fs_faculty_id a = f" "s_class_id st \<noteq> None" "assignment_subject db a = Some subject"
      "isApplicable a st" "e = with_subject st subject"
      by blast
    from h(4) obtain c where c: "s_class_id st = Some c"
      by auto
    from h(2,3) have a: "a \<in> set assignments"
      by (simp add: asg)
    from h(6) c have "fs_class_id a = Some c"
      by (simp add: isApplicable_def)
    with a have "c \<in> set classIds"
      unfolding classIds by blast
    with h(1) c have "st \<in> set allStudents"
      by (simp add: all)
    with a h(5,6,7) show "\<exists>st \<in> set allStudents. \<exists>a \<in> set assignments. \<exists>subject.
         assignment_subject db a = Some subject \<and> isApplicable a st \<and> e = with_subject st subject"
      by blast
  qed
  finally show ?thesis .
qed

lemma view_assigned:
  assumes "\<exists>x \<in> set (subjects db). subj_id x = s"
  shows "sws_student ` {e \<in> set (assigned_entries db f). sws_subject_id e = s} =
         {st \<in> set (students db). directly_assigned db f s st}"
proof (rule set_eqI, rule iffI)
  fix st
  assume "st \<in> sws_student ` {e \<in> set (assigned_entries db f). sws_subject_id e = s}"
  then obtain e where e: "e \<in> set (assigned_entries db f)" "sws_subject_id e = s" "st = sws_student e"
    by blast
  from e(1) obtain st' a subject where h: "st' \<in> set (students db)" "a \<in> set (faculty_subjects db)"
      "fs_faculty_id a = f" "s_class_id st' \<noteq> None" "assignment_subject db a = Some subject"
      "isApplicable a st'" "e = with_subject st' subject"
    unfolding assigned_entries_iff by blast
  from h(7) e have st: "st = st'" and sub: "subj_id subject = s"
    by (simp_all add: with_subject_def)
  from h(5) sub have "fs_subject_id a = Some s"
    by (auto dest: assignment_subject_Some)
  with h st show "st \<in> {st \<in> set (students db). directly_assigned db f s st}"
    by (auto simp: directly_assigned_def isApplicable_def)
next
  fix st
  assume "st \<in> {st \<in> set (students db). directly_assigned db f s st}"
  then obtain a where h: "st \<in> set (students db)" "a \<in> set (faculty_subjects db)"
    "fs_faculty_id a = f" "fs_subject_id a = Some s" "fs_class_id a \<noteq> None"
    "s_class_id st = fs_class_id a" "fs_batch_id a = None \<or> fs_batch_id a = s_batch_id st"
    by (auto simp: directly_assigned_def)
  from assms obtain subject where j: "joined_subject db s = Some subject"
    using joined_subject_exists by blast
  then have sub: "subj_id subject = s"
    by (auto dest: joined_subject_Some)
  from j h(4) have as: "assignment_subject db a = Some subject"
    by (simp add: assignment_subject_def)
  from h have ap: "isApplicable a st" and cl: "s_class_id st \<noteq> None"
    by (auto simp: isApplicable_def)
  from h(1,2,3) as ap cl have "with_subject st subject \<in> set (assigned_entries db f)"
    unfolding assigned_entries_iff by blast
  moreover have "sws_subject_id (with_subject st subject) = s" "sws_student (with_subject st subject) = st"
    by (simp_all add: with_subject_def sub)
  ultimately show "st \<in> sws_student ` {e \<in> set (assigned_entries db f). sws_subject_id e = s}"
    by force
qed


lemma selected_subject_ids_iff:
  "i \<in> set (selected_subject_ids f r) \<longleftrightarrow> selected_with f i r"
  unfolding selected_subject_ids_def selected_with_def set_append Un_iff
  by (cases "mdm_faculty_id r = Some f"; cases "oe_faculty_id r = Some f";
      cases "pe_faculty_id r = Some f"; cases "mdm_id r"; cases "oe_id r"; cases "pe_id r";
      simp add: eq_commute [of i])

lemma elective_entries_iff:
  "e \<in> set (elective_entries db f) \<longleftrightarrow>
   (\<exists>st \<in> set (students db). \<exists>r i subject.
      find (\<lambda>r. sel_student_id r = s_id st) (electiveSelections db f) = Some r \<and>
      i \<in> set (selected_subject_ids f r) \<and>
      find (\<lambda>x. subj_id x = i) (rev (taken_subjects db f)) = Some subject \<and>
      e = with_subject st subject)"
proof -
  define selections where "selections = electiveSelections db f"
  define ids where "ids = Set_from (map sel_student_id selections)"
  define studs where
    "studs = order_by_roll_no (filter (\<lambda>st. s_id st \<in> set ids) (students db))"
  define entry where "entry = (\<lambda>st.
                case find (\<lambda>r. sel_student_id r = s_id st) selections of
                  None \<Rightarrow> []
                | Some selection \<Rightarrow>
                    concat (map (\<lambda>i. case find (\<lambda>x. subj_id x = i) (rev (taken_subjects db f)) of
                                        None \<Rightarrow> []
                                      | Some subject \<Rightarrow> [with_subject st subject])
                              (selected_subject_ids f selection)))"
  have entries: "elective_entries db f = (if 0 < length ids then concat (map entry studs) else [])"
    unfolding elective_entries_def Let_def selections_def ids_def studs_def entry_def
      taken_subjects_def
    by (rule refl)
  have entry: "e \<in> set (entry st) \<longleftrightarrow>
      (\<exists>r i subject. find (\<lambda>r. sel_student_id r = s_id st) selections = Some r \<and>
         i \<in> set (selected_subject_ids f r) \<and>
         find (\<lambda>x. subj_id x = i) (rev (taken_subjects db f)) = Some subject \<and>
         e = with_subject st subject)" for st
    unfolding entry_def by (auto split: option.splits) metis+
  have found: "find (\<lambda>r. sel_student_id r = s_id st) selections = Some r \<Longrightarrow> s_id st \<in> set ids"
    for st r
    by (auto simp: ids_def find_Some_iff) (metis image_eqI nth_mem)
  have studs: "st \<in> set studs \<longleftrightarrow> st \<in> set (students db) \<and> s_id st \<in> set ids" for st
    by (simp add: studs_def)
  show ?thesis
  proof
    assume "e \<in> set (elective_entries db f)"
    then have "e \<in> set (concat (map entry studs))"
      by (simp add: entries split: if_splits)
    then obtain st where "st \<in> set studs" "e \<in> set (entry st)"
      by auto
    then show "\<exists>st \<in> set (students db). \<exists>r i subject.
      find (\<lambda>r. sel_student_id r = s_id st) (electiveSelections db f) = Some r \<and>
      i \<in> set (selected_subject_ids f r) \<and>
      find (\<lambda>x. subj_id x = i) (rev (taken_subjects db f)) = Some subject \<and>
      e = with_subject st subject"
      unfolding entry studs selections_def by blast
  next
    assume "\<exists>st \<in> set (students db). \<exists>r i subject.
      find (\<lambda>r. sel_student_id r = s_id st) (electiveSelections db f) = Some r \<and>
      i \<in> set (selected_subject_ids f r) \<and>
      find (\<lambda>x. subj_id x = i) (rev (taken_subjects db f)) = Some subject \<and>
      e = with_subject st subject"
    then obtain st r i subject where h: "st \<in> set (students db)"
      "find (\<lambda>r. sel_student_id r = s_id st) selections = Some r"
      "i \<in> set (selected_subject_ids f r)"
      "find (\<lambda>x. subj_id x = i) (rev (taken_subjects db f)) = Some subject"
      "e = with_subject st subject"
      unfolding selections_def by blast
    from found [OF h(2)] have in_ids: "s_id st \<in> set ids" .
    then have "ids \<noteq> []" by auto
    moreover from h(1) in_ids have "st \<in> set studs"
      by (simp add: studs)
    moreover from h(2-5) have "e \<in> set (entry st)"
      unfolding entry by blast
    ultimately show "e \<in> set (elective_entries db f)"
      by (auto simp: entries)
  qed
qed

lemma view_elective:
  assumes "\<exists>x \<in> set (subjects db). subj_id x = s"
    and "distinct (map sel_student_id (student_subject_selection db))"
  shows "sws_student ` {e \<in> set (elective_entries db f). sws_subject_id e = s} =
         {st \<in> set (students db). self_selected db f s st}"
proof (rule set_eqI, rule iffI)
  fix st
  assume "st \<in> sws_student ` {e \<in> set (elective_entries db f). sws_subject_id e = s}"
  then obtain e where e: "e \<in> set (elective_entries db f)" "sws_subject_id e = s" "st = sws_student e"
    by blast
  from e(1) obtain st' r i subject where h: "st' \<in> set (students db)"
      "find (\<lambda>r. sel_student_id r = s_id st') (electiveSelections db f) = Some r"
      "i \<in> set (selected_subject_ids f r)"
      "find (\<lambda>x. subj_id x = i) (rev (taken_subjects db f)) = Some subject"
      "e = with_subject st' subject"
    unfolding elective_entries_iff by blast
  from h(5) e have st: "st = st'" and sub: "subj_id subject = s"
    by (simp_all add: with_subject_def)
  from h(4) have "subj_id subject = i"
    by (auto simp: find_Some_iff)
  with sub h(3) have sw: "selected_with f s r"
    by (simp add: selected_subject_ids_iff)
  from h(2) have "r \<in> set (electiveSelections db f)" "sel_student_id r = s_id st'"
    by (auto simp: find_Some_iff)
  then have "r \<in> set (student_subject_selection db)" "sel_student_id r = s_id st'"
    by (auto simp: electiveSelections_def)
  with sw h(1) st show "st \<in> {st \<in> set (students db). self_selected db f s st}"
    by (auto simp: self_selected_def)
next
  fix st
  assume "st \<in> {st \<in> set (students db). self_selected db f s st}"
  then obtain r where h: "st \<in> set (students db)" "r \<in> set (student_subject_selection db)"
    "sel_student_id r = s_id st" "selected_with f s r"
    by (auto simp: self_selected_def)
  have inj: "inj_on sel_student_id (set (student_subject_selection db))"
    using assms(2) by (simp add: distinct_map)
  from h(2,4) have r: "r \<in> set (electiveSelections db f)"
    by (rule selected_with_elective [rotated])
  have only: "y = r" if "y \<in> set (electiveSelections db f)" "sel_student_id y = s_id st" for y
  proof -
    from that(1) have "y \<in> set (student_subject_selection db)"
      by (simp add: electiveSelections_def)
    with h(2,3) that(2) show ?thesis
      using inj_onD [OF inj, of y r] by simp
  qed
  have fr: "find (\<lambda>r. sel_student_id r = s_id st) (electiveSelections db f) = Some r"
  proof (rule find_the_row [where P = "\<lambda>r. sel_student_id r = s_id st"])
    show "r \<in> set (electiveSelections db f)" by (rule r)
    show "sel_student_id r = s_id st" by (rule h(3))
    fix y
    assume "y \<in> set (electiveSelections db f)" "sel_student_id y = s_id st"
    then show "y = r" by (rule only)
  qed
  have si: "s \<in> set (selected_subject_ids f r)"
    using h(4) by (simp add: selected_subject_ids_iff)
  from assms(1) obtain x where x: "x \<in> set (subjects db)" "subj_id x = s"
    by blast
  from si r have "s \<in> set (Set_from (concat (map (selected_subject_ids f) (electiveSelections db f))))"
    by auto
  with x have "x \<in> set (rev (taken_subjects db f))"
    by (simp add: taken_subjects_def)
  with x(2) obtain subject where fs: "find (\<lambda>x. subj_id x = s) (rev (taken_subjects db f)) = Some subject"
    by (cases "find (\<lambda>x. subj_id x = s) (rev (taken_subjects db f))") (auto simp: find_None_iff)
  then have sub: "subj_id subject = s"
    by (auto simp: find_Some_iff)
  from h(1) fr si fs have "with_subject st subject \<in> set (elective_entries db f)"
    unfolding elective_entries_iff by blast
  moreover have "sws_subject_id (with_subject st subject) = s" "sws_student (with_subject st subject) = st"
    by (simp_all add: with_subject_def sub)
  ultimately show "st \<in> sws_student ` {e \<in> set (elective_entries db f). sws_subject_id e = s}"
    by force
qed

text \<open>
  The submission-marking list. For every faculty and subject it holds each student id
  exactly once, and its ids are those of the students reached by a direct assignment of
  the faculty for the subject (class, or class and batch) or by a selection row that
  takes the subject with the faculty. The list is the first occurrences of the
  direct-assignment students followed by the self-selection students not seen before.
  When the subject exists in \<open>subjects\<close> and every student has at most one selection
  row, the faculty's view lists the same set of student ids under that subject.
\<close>

lemma marking_students_once:
  "distinct (map s_id (marking_students db f s)) \<and>
   s_id ` set (marking_students db f s) =
     s_id ` {st \<in> set (students db). directly_assigned db f s st \<or> self_selected db f s st} \<and>
   marking_students db f s =
     uniqueStudents (direct_students db f s) @
     filter (\<lambda>st. s_id st \<notin> s_id ` set (direct_students db f s))
       (uniqueStudents (elective_students db f s)) \<and>
   ((\<exists>x \<in> set (subjects db). subj_id x = s) \<and>
    distinct (map sel_student_id (student_subject_selection db)) \<longrightarrow>
      s_id ` set (marking_students db f s) = s_id ` set (view_students db f s))"
proof -
  have once: "distinct (map s_id (marking_students db f s))"
    by (simp add: marking_students_def uniqueStudents_distinct)
  have ids: "s_id ` set (marking_students db f s) =
     s_id ` {st \<in> set (students db). directly_assigned db f s st \<or> self_selected db f s st}"
    unfolding marking_students_def uniqueStudents_ids
    by (auto simp: set_direct_students set_elective_students)
  have order: "marking_students db f s =
     uniqueStudents (direct_students db f s) @
     filter (\<lambda>st. s_id st \<notin> s_id ` set (direct_students db f s))
       (uniqueStudents (elective_students db f s))"
    by (simp add: marking_students_def uniqueStudents_append)
  have agree: "s_id ` set (marking_students db f s) = s_id ` set (view_students db f s)"
    if ex: "\<exists>x \<in> set (subjects db). subj_id x = s"
      and uniq: "distinct (map sel_student_id (student_subject_selection db))"
  proof -
    have "set (view_students db f s) =
        sws_student ` {e \<in> set (assigned_entries db f). sws_subject_id e = s} \<union>
        sws_student ` {e \<in> set (elective_entries db f). sws_subject_id e = s}"
      by (auto simp: view_students_def faculty_students_def)
    also have "\<dots> = {st \<in> set (students db). directly_assigned db f s st \<or> self_selected db f s st}"
      unfolding view_assigned [OF ex] view_elective [OF ex uniq] by blast
    finally show ?thesis
      by (simp add: ids)
  qed
  from once ids order agree show ?thesis
    by blast
qed

text \<open>
  Claim C4, refuted for the faculty's view. Faculty \<open>f1\<close> teaches subject \<open>A\<close> to
  class \<open>c1\<close> by a direct assignment, and student \<open>s2\<close> of that class selects \<open>A\<close>
  with \<open>f1\<close> as the open elective, which \<open>select-elective\<close> accepts. The faculty's view
  then lists \<open>s2\<close> twice under \<open>A\<close>, once per way of enrolment, where the
  submission-marking list has each student once.
\<close>

theorem faculty_view_lists_twice:
  "select_elective ex_assigned ''s2'' ''A'' ''f1'' ''OE'' =
     (Success 201 ''OE subject selected successfully.'', ex_both_ways) \<and>
   map (\<lambda>e. (s_id (sws_student e), sws_subject_id e)) (faculty_students ex_both_ways ''f1'') =
     [(''s1'', ''A''), (''s2'', ''A''), (''s2'', ''A'')] \<and>
   map s_id (view_students ex_both_ways ''f1'' ''A'') = [''s1'', ''s2'', ''s2''] \<and>
   map s_id (marking_students ex_both_ways ''f1'' ''A'') = [''s1'', ''s2'']"
proof -
  have ids: "Set_from [''c1''] = [''c1'']" "Set_from [''s2''] = [''s2'']" "Set_from [''A''] = [''A'']"
    by (simp_all add: Set_from_def)
  have tables: "students ex_both_ways = [ex_s1, ex_s2]" "subjects ex_both_ways = [ex_A, ex_B]"
    "faculty_subjects ex_both_ways =
       [\<lparr>fs_faculty_id = ''f1'', fs_subject_id = Some ''A'', fs_class_id = Some ''c1'',
         fs_batch_id = None\<rparr>]"
    "student_subject_selection ex_both_ways =
       [(new_selection ''s2'')\<lparr>oe_id := Some ''A'', oe_faculty_id := Some ''f1''\<rparr>]"
    by (simp_all add: ex_both_ways_def ex_assigned_def ex_db_def)
  have selected: "select_elective ex_assigned ''s2'' ''A'' ''f1'' ''OE'' =
      (Success 201 ''OE subject selected successfully.'', ex_both_ways)"
    by (simp add: select_elective_def maybeSingle_def selection_of_def facultySubject_def
        insert_selection_def updateData_def ex_both_ways_def ex_assigned_def ex_db_def)
  have joined: "joined_subject ex_both_ways ''A'' = Some ex_A"
    by (simp add: joined_subject_def tables ex_A_def ex_B_def)
  have sorted: "order_by_roll_no [ex_s1, ex_s2] = [ex_s1, ex_s2]" "order_by_roll_no [ex_s2] = [ex_s2]"
    by (simp_all add: order_by_roll_no_def ex_s1_def ex_s2_def)
  have st: "s_class_id ex_s1 = Some ''c1''" "s_class_id ex_s2 = Some ''c1''"
    "s_id ex_s1 = ''s1''" "s_id ex_s2 = ''s2''"
    by (simp_all add: ex_s1_def ex_s2_def)
  have assigned: "assigned_entries ex_both_ways ''f1'' =
      [with_subject ex_s1 ex_A, with_subject ex_s2 ex_A]"
    by (simp add: assigned_entries_def tables assignment_subject_def joined isApplicable_def ids
        sorted st)
  have sel: "electiveSelections ex_both_ways ''f1'' =
       [(new_selection ''s2'')\<lparr>oe_id := Some ''A'', oe_faculty_id := Some ''f1''\<rparr>]"
    by (simp add: electiveSelections_def tables)
  have taken: "selected_subject_ids ''f1''
       ((new_selection ''s2'')\<lparr>oe_id := Some ''A'', oe_faculty_id := Some ''f1''\<rparr>) = [''A'']"
    by (simp add: selected_subject_ids_def new_selection_def)
  have sid: "sel_student_id ((new_selection ''s2'')\<lparr>oe_id := Some ''A'', oe_faculty_id := Some ''f1''\<rparr>) = ''s2''"
    by (simp add: new_selection_def)
  have subj: "subj_id ex_A = ''A''" "subj_id ex_B = ''B''"
    by (simp_all add: ex_A_def ex_B_def)
  have elective: "elective_entries ex_both_ways ''f1'' = [with_subject ex_s2 ex_A]"
    by (simp add: elective_entries_def sel taken sid ids tables st sorted subj Let_def)
  have entries: "map (\<lambda>e. (s_id (sws_student e), sws_subject_id e)) (faculty_students ex_both_ways ''f1'') =
     [(''s1'', ''A''), (''s2'', ''A''), (''s2'', ''A'')]"
    by (simp add: faculty_students_def assigned elective with_subject_def subj st)
  have view: "map s_id (view_students ex_both_ways ''f1'' ''A'') = [''s1'', ''s2'', ''s2'']"
    by (simp add: view_students_def faculty_students_def assigned elective with_subject_def
        subj st)
  have direct: "direct_students ex_both_ways ''f1'' ''A'' = [ex_s1, ex_s2]"
    by (simp add: direct_students_def assignment_students_def tables sorted st)
  have chosen: "elective_students ex_both_ways ''f1'' ''A'' = [ex_s2]"
    by (simp add: elective_students_def sel selected_with_def new_selection_def tables sorted st)
  have marking: "map s_id (marking_students ex_both_ways ''f1'' ''A'') = [''s1'', ''s2'']"
    by (simp add: marking_students_def direct chosen uniqueStudents_def uniqueStudentsMap_def st)
  from selected entries view marking show ?thesis
    by (intro conjI)
qed

section \<open>The store keeps its keys\<close>

text \<open>
  The uniqueness that the theorems above assume of the store is kept by the routes that
  write: marking a submission keeps one row per student, subject and type, and the three
  routes that write selections keep one row per student.
\<close>

lemma maybeSingle_cases:
  "maybeSingle rows = Inr None \<longleftrightarrow> rows = []"
  "maybeSingle rows = Inr (Some r) \<longleftrightarrow> rows = [r]"
  "maybeSingle rows = Inl e \<longleftrightarrow> e = Multiple_rows \<and> 2 \<le> length rows"
  by (auto simp: maybeSingle_def split: list.splits)

lemma map_key_update_status:
  "map submission_key (map (\<lambda>sub. if sub = x then sub\<lparr>sub_status := v\<rparr> else sub) rows) =
   map submission_key rows"
  by (induction rows) (simp_all add: submission_key_def)

lemma mark_submission_keeps_keys:
  assumes "distinct (map submission_key (student_submissions db))"
  shows "distinct (map submission_key
           (student_submissions (snd (mark_submission db marked_by student_id subject_id
                                        submission_type status))))"
proof -
  have fresh: "submission_key sub \<noteq> (student_id, subject_id, t)"
    if "submission_rows db student_id subject_id t = []" "sub \<in> set (student_submissions db)"
    for t sub
  proof
    assume "submission_key sub = (student_id, subject_id, t)"
    with that(2) have "sub \<in> set (submission_rows db student_id subject_id t)"
      by (simp add: submission_rows_def submission_key_def)
    with that(1) show False by simp
  qed
  have new: "submission_key \<lparr>sub_student_id = a, sub_subject_id = b, sub_type_id = c,
      sub_status = d\<rparr> = (a, b, c)" for a b c d
    by (simp add: submission_key_def)
  have appended: "distinct (map submission_key (student_submissions db @
      [\<lparr>sub_student_id = student_id, sub_subject_id = subject_id, sub_type_id = t,
        sub_status = status\<rparr>]))"
    if "submission_rows db student_id subject_id t = []" for t
  proof -
    have "(student_id, subject_id, t) \<notin> set (map submission_key (student_submissions db))"
    proof
      assume "(student_id, subject_id, t) \<in> set (map submission_key (student_submissions db))"
      then obtain sub where "sub \<in> set (student_submissions db)"
        "submission_key sub = (student_id, subject_id, t)"
        by auto
      with fresh [OF that] show False
        by blast
    qed
    with assms show ?thesis
      by (simp add: new)
  qed
  show ?thesis
    using assms appended
    by (simp add: mark_submission_def map_key_update_status maybeSingle_cases
        del: map_map split: sum.splits option.splits)
qed

lemma selection_key_preserved:
  assumes "distinct (map sel_student_id (student_subject_selection db))"
  shows "distinct (map sel_student_id
           (student_subject_selection (snd (select_elective db student_id subject_id faculty_id type)))) \<and>
         distinct (map sel_student_id
           (student_subject_selection (snd (lock_selections db student_id class_id)))) \<and>
         distinct (map sel_student_id
           (student_subject_selection (snd (update_student db classId sid body))))"
proof -
  have upd: "distinct (map sel_student_id (student_subject_selection (update_selection d i f)))"
    if "\<And>r. sel_student_id (f r) = sel_student_id r"
      "distinct (map sel_student_id (student_subject_selection d))" for f i d
  proof -
    have "map sel_student_id (map (\<lambda>r. if sel_student_id r = i then f r else r) rows) =
      map sel_student_id rows" for rows
      by (induction rows) (simp_all add: that(1))
    with that(2) show ?thesis
      by (simp add: update_selection_def del: map_map)
  qed
  have ins: "distinct (map sel_student_id (student_subject_selection (insert_selection d r)))"
    if "selection_of d (sel_student_id r) = []"
      "distinct (map sel_student_id (student_subject_selection d))" for d r
  proof -
    from that(1) have "sel_student_id r \<notin> sel_student_id ` set (student_subject_selection d)"
      by (auto simp: selection_of_def filter_empty_conv)
    with that(2) show ?thesis
      by (simp add: insert_selection_def)
  qed
  have u1: "sel_student_id (updateData ty s f r) = sel_student_id r" for ty s f r
    by (simp add: updateData_def)
  have u2: "sel_student_id (selectionsData es r) = sel_student_id r" for es r
    by (simp add: selectionsData_def)
  have u3: "sel_student_id (new_selection i) = i" for i
    by (simp add: new_selection_def)
  have 1: "distinct (map sel_student_id
           (student_subject_selection (snd (select_elective db student_id subject_id faculty_id type))))"
    using assms
    by (simp add: select_elective_def maybeSingle_cases upd ins u1 u3
        split: sum.splits option.splits)
  have 2: "distinct (map sel_student_id
           (student_subject_selection (snd (lock_selections db student_id class_id))))"
    using assms
    by (simp add: lock_selections_def Let_def upd split: sum.splits option.splits)
  have st: "student_subject_selection (d\<lparr>students := xs\<rparr>) = student_subject_selection d" for d xs
    by simp
  have 3: "distinct (map sel_student_id
           (student_subject_selection (snd (update_student db classId sid body))))"
    using assms
    by (simp add: update_student_def Let_def maybeSingle_cases upd ins u2 u3
        split: sum.splits option.splits)
  from 1 2 3 show ?thesis by blast
qed

end
